theory Spec2Isabelle
  imports Main "HOL-Library.Sublist" "HOL-Library.AList"
begin

text \<open>
  A model of the GitHub tool server: the request handler of \<^verbatim>\<open>index.ts\<close> (the later of
  the two versions of the file, the one that falls back to the environment for the
  credential), and the operations on files, branches, releases, commit statuses and issues
  under \<^verbatim>\<open>operations/\<close>. The remote API, the schemas of \<^verbatim>\<open>common/types.ts\<close> and
  the functions of the JavaScript runtime are parameters of the model; the HTTP invoker
  and the error classifier of \<^verbatim>\<open>common/\<close> are modelled from the specification.
\<close>

section \<open>Values\<close>

text \<open>
  The argument record of a tool call, the bodies sent to GitHub and the bodies received
  are JSON values. A JavaScript object is an association list in which the first entry
  of a key is the property. Numbers are opaque to every operation modelled here (they are
  only compared and copied), so they are integers. A string is the sequence of the bytes
  of its UTF-8 encoding. A JavaScript value that may be \<^verbatim>\<open>undefined\<close> is a
  \<open>json option\<close>.
\<close>

datatype json =
    JNull
  | JBool bool
  | JNum int
  | JStr string
  | JArr "json list"
  | JObj "(string \<times> json) list"

text \<open>JavaScript truthiness, as used by \<^verbatim>\<open>if (x)\<close>, \<^verbatim>\<open>!x\<close> and \<^verbatim>\<open>a && b\<close>.\<close>

fun truthy :: "json option \<Rightarrow> bool" where
  "truthy None = False"
| "truthy (Some JNull) = False"
| "truthy (Some (JBool b)) = b"
| "truthy (Some (JNum n)) = (n \<noteq> 0)"
| "truthy (Some (JStr s)) = (s \<noteq> [])"
| "truthy (Some (JArr xs)) = True"
| "truthy (Some (JObj kvs)) = True"

text \<open>Property read \<^verbatim>\<open>x.k\<close> on a value that is not \<^verbatim>\<open>undefined\<close> or \<^verbatim>\<open>null\<close>.\<close>

fun get_prop :: "json \<Rightarrow> string \<Rightarrow> json option" where
  "get_prop (JObj kvs) k = map_of kvs k"
| "get_prop _ k = None"

text \<open>
  An object literal \<^verbatim>\<open>{k1: v1, ...}\<close> some of whose values may be \<^verbatim>\<open>undefined\<close>:
  such properties do not exist in the JSON that is sent, so they are dropped.
\<close>

fun obj :: "('k \<times> json option) list \<Rightarrow> ('k \<times> json) list" where
  "obj [] = []"
| "obj ((k, None) # kvs) = obj kvs"
| "obj ((k, Some v) # kvs) = (k, v) # obj kvs"

section \<open>The validation library\<close>

text \<open>
  The schemas of the source are values of the zod library. The constructors below are the
  ones the source uses: \<^verbatim>\<open>z.string()\<close>, \<^verbatim>\<open>z.number()\<close> with optional
  \<^verbatim>\<open>min\<close> and \<^verbatim>\<open>max\<close>, \<^verbatim>\<open>z.boolean()\<close>, \<^verbatim>\<open>z.any()\<close>,
  \<^verbatim>\<open>z.enum([...])\<close>, \<^verbatim>\<open>z.array(s)\<close>, \<^verbatim>\<open>z.record(s)\<close>, \<^verbatim>\<open>z.object({...})\<close>,
  \<^verbatim>\<open>s.optional()\<close> and \<^verbatim>\<open>s.nullable()\<close>. \<^verbatim>\<open>describe\<close> does not change what a
  schema accepts and is left out.
\<close>

datatype zschema =
    ZString
  | ZNumber "int option" "int option"
  | ZBoolean
  | ZAny
  | ZEnum "string list"
  | ZArray zschema
  | ZRecord zschema
  | ZObject "(string \<times> zschema) list"
  | ZOptional zschema
  | ZNullable zschema

text \<open>
  An issue of a failed parse: the path of the offending value (property names and array
  indices) and the issue code.
\<close>

datatype zissue = ZIssue (zpath: "json list") (zcode: string)

text \<open>
  \<open>collect\<close> gathers the results of parsing the parts of a value: every issue of every
  part is reported (the library does not stop at the first failing field).
\<close>

fun collect :: "('k \<times> (zissue list + json option)) list \<Rightarrow> zissue list \<times> ('k \<times> json option) list" where
  "collect [] = ([], [])"
| "collect ((k, Inl is) # rs) = (case collect rs of (js, vs) \<Rightarrow> (is @ js, vs))"
| "collect ((k, Inr v) # rs) = (case collect rs of (js, vs) \<Rightarrow> (js, (k, v) # vs))"

text \<open>A parse fails when there is an issue, and yields the value otherwise.\<close>

fun finish :: "zissue list \<Rightarrow> json option \<Rightarrow> zissue list + json option" where
  "finish [] v = Inr v"
| "finish (i # is) v = Inl (i # is)"

text \<open>The checks \<^verbatim>\<open>.min(lo)\<close> and \<^verbatim>\<open>.max(hi)\<close> of a number.\<close>

definition bounds :: "json list \<Rightarrow> int option \<Rightarrow> int option \<Rightarrow> int \<Rightarrow> zissue list" where
  "bounds p lo hi n =
     (case lo of Some l \<Rightarrow> if n < l then [ZIssue p ''too_small''] else [] | None \<Rightarrow> [])
     @ (case hi of Some h \<Rightarrow> if h < n then [ZIssue p ''too_big''] else [] | None \<Rightarrow> [])"

fun index_keys :: "nat \<Rightarrow> 'a list \<Rightarrow> (json \<times> 'a) list" where
  "index_keys n [] = []"
| "index_keys n (x # xs) = (JNum (int n), x) # index_keys (Suc n) xs"

text \<open>
  \<open>zparse s p v\<close> is \<^verbatim>\<open>s.parse(v)\<close> at path \<open>p\<close>: \<open>Inr\<close> the parsed value
  (\<open>None\<close> for \<^verbatim>\<open>undefined\<close>), or \<open>Inl\<close> the issues of the \<^verbatim>\<open>ZodError\<close>.
  An object schema keeps the properties of its shape, in the order of the shape, and
  strips every other property.
\<close>

fun zparse :: "zschema \<Rightarrow> json list \<Rightarrow> json option \<Rightarrow> zissue list + json option" where
  "zparse ZString p v =
     (case v of Some (JStr s) \<Rightarrow> Inr v | _ \<Rightarrow> Inl [ZIssue p ''invalid_type''])"
| "zparse (ZNumber lo hi) p v =
     (case v of
        Some (JNum n) \<Rightarrow> finish (bounds p lo hi n) v
      | _ \<Rightarrow> Inl [ZIssue p ''invalid_type''])"
| "zparse ZBoolean p v =
     (case v of Some (JBool b) \<Rightarrow> Inr v | _ \<Rightarrow> Inl [ZIssue p ''invalid_type''])"
| "zparse ZAny p v = Inr v"
| "zparse (ZEnum lits) p v =
     (case v of
        Some (JStr s) \<Rightarrow> if s \<in> set lits then Inr v else Inl [ZIssue p ''invalid_enum_value'']
      | _ \<Rightarrow> Inl [ZIssue p ''invalid_type''])"
| "zparse (ZArray s) p v =
     (case v of
        Some (JArr xs) \<Rightarrow>
          (case collect (map (\<lambda>(k, x). (k, zparse s (p @ [k]) (Some x))) (index_keys 0 xs)) of
             (is, vs) \<Rightarrow> finish is (Some (JArr (map snd (obj vs)))))
      | _ \<Rightarrow> Inl [ZIssue p ''invalid_type''])"
| "zparse (ZRecord s) p v =
     (case v of
        Some (JObj kvs) \<Rightarrow>
          (case collect (map (\<lambda>(k, x). (k, zparse s (p @ [JStr k]) (Some x))) kvs) of
             (is, vs) \<Rightarrow> finish is (Some (JObj (obj vs))))
      | _ \<Rightarrow> Inl [ZIssue p ''invalid_type''])"
| "zparse (ZObject shape) p v =
     (case v of
        Some (JObj kvs) \<Rightarrow>
          (case collect (map (\<lambda>(k, s). (k, zparse s (p @ [JStr k]) (map_of kvs k))) shape) of
             (is, vs) \<Rightarrow> finish is (Some (JObj (obj vs))))
      | _ \<Rightarrow> Inl [ZIssue p ''invalid_type''])"
| "zparse (ZOptional s) p v = (case v of None \<Rightarrow> Inr None | _ \<Rightarrow> zparse s p v)"
| "zparse (ZNullable s) p v = (case v of Some JNull \<Rightarrow> Inr v | _ \<Rightarrow> zparse s p v)"

text \<open>\<^verbatim>\<open>A.extend({k: s})\<close>: the shape of \<open>A\<close> with the property \<open>k\<close> set to \<open>s\<close>.\<close>

fun zextend :: "zschema \<Rightarrow> (string \<times> zschema) list \<Rightarrow> zschema" where
  "zextend (ZObject shape) more = ZObject (foldl (\<lambda>sh (k, s). AList.update k s sh) shape more)"
| "zextend s more = s"

section \<open>Errors\<close>

text \<open>
  The error classes that the dispatcher imports from \<^verbatim>\<open>common/errors.js\<close>. Every
  class carries a message; the generic and the validation error also carry the HTTP status
  and the response body, the rate-limit error the time at which the limit resets (seconds
  since the epoch).
\<close>

datatype github_error =
    GitHubError string nat "json option"
  | GitHubValidationError string nat "json option"
  | GitHubResourceNotFoundError string
  | GitHubAuthenticationError string
  | GitHubPermissionError string
  | GitHubRateLimitError string int
  | GitHubConflictError string

text \<open>What a function of the source can throw.\<close>

datatype failure =
    ZodError "zissue list"
  | GitHubFailure github_error
  | Error string

section \<open>The HTTP invoker\<close>

datatype http_method = GET | POST | PUT | PATCH | DELETE

text \<open>
  A call \<^verbatim>\<open>githubRequest(github_pat, url, {method, body, headers})\<close>; the field
  \<open>meth\<close> is the \<^verbatim>\<open>method\<close> of the source. A body that is a JavaScript string is
  \<open>JStr\<close>, a body that is an object literal is \<open>JObj\<close>.
\<close>

record request =
  token :: string
  url :: string
  meth :: http_method
  body :: "json option"
  headers :: "(string \<times> string) list"

record response =
  status :: nat
  resp_headers :: "(string \<times> string) list"
  resp_body :: "json option"

text \<open>
  What the source takes from outside itself: the remote API, whose answer to a request may
  depend on every request it has received before (so its state is the list of the requests
  made so far); the schemas of \<^verbatim>\<open>common/types.js\<close>, which is not part of the
  sources at hand; and the functions of the JavaScript runtime that the operations call.
\<close>

record platform =
  serve :: "request list \<Rightarrow> request \<Rightarrow> response"
  error_message :: "nat \<Rightarrow> json option \<Rightarrow> string"
  reset_timestamp :: "(string \<times> string) list \<Rightarrow> json option \<Rightarrow> int"
  GitHubReferenceSchema :: zschema
  GitHubTreeSchema :: zschema
  GitHubCommitSchema :: zschema
  GitHubContentSchema :: zschema
  GitHubFileContentSchema :: zschema
  GitHubAuthorSchema :: zschema
  GitHubIssueAssigneeSchema :: zschema
  base64_to_utf8 :: "string \<Rightarrow> string"
  utf8_to_base64 :: "string \<Rightarrow> string"
  url_with_params :: "string \<Rightarrow> (string \<times> string) list \<Rightarrow> string option"
  buildUrl :: "string \<Rightarrow> (string \<times> string option) list \<Rightarrow> string"
  JSON_stringify :: "json \<Rightarrow> string"
  JSON_stringify_pretty :: "json \<Rightarrow> string"
  issues_json :: "zissue list \<Rightarrow> json"
  toISOString :: "int \<Rightarrow> string"
  number_toString :: "int \<Rightarrow> string"

text \<open>
  Modelled from the spec: \<^verbatim>\<open>createGitHubError\<close> of \<^verbatim>\<open>common/errors.ts\<close>, which is
  not among the sources. The spec: 401 is an authentication error, 403 a permission error,
  404 a not-found error, 409 a conflict, 422 a validation error that keeps the body, 429
  or a 403 whose \<^verbatim>\<open>rate-limit-remaining\<close> header is 0 a rate-limit error with a computed
  reset time, and anything else a generic error with the status and the body. How the
  message and the reset time are computed is not said, so both are taken from the platform.
\<close>

definition createGitHubError ::
  "platform \<Rightarrow> nat \<Rightarrow> (string \<times> string) list \<Rightarrow> json option \<Rightarrow> github_error" where
  "createGitHubError pf st hs b =
     (let msg = error_message pf st b in
      if st = 429 \<or> (st = 403 \<and> map_of hs ''rate-limit-remaining'' = Some ''0'')
        then GitHubRateLimitError msg (reset_timestamp pf hs b)
      else if st = 401 then GitHubAuthenticationError msg
      else if st = 403 then GitHubPermissionError msg
      else if st = 404 then GitHubResourceNotFoundError msg
      else if st = 409 then GitHubConflictError msg
      else if st = 422 then GitHubValidationError msg st b
      else GitHubError msg st b)"

text \<open>
  An asynchronous function of the source is a function from the requests made so far to
  its outcome (a thrown failure or a value) and the requests made when it settles.
\<close>

type_synonym 'a io = "request list \<Rightarrow> (failure + 'a) \<times> request list"

definition ret :: "'a \<Rightarrow> 'a io" where
  "ret x = (\<lambda>log. (Inr x, log))"

definition throw :: "failure \<Rightarrow> 'a io" where
  "throw e = (\<lambda>log. (Inl e, log))"

definition lift :: "failure + 'a \<Rightarrow> 'a io" where
  "lift r = (\<lambda>log. (r, log))"

definition bind :: "'a io \<Rightarrow> ('a \<Rightarrow> 'b io) \<Rightarrow> 'b io" where
  "bind m f = (\<lambda>log. case m log of (Inl e, log') \<Rightarrow> (Inl e, log') | (Inr x, log') \<Rightarrow> f x log')"

definition try_catch :: "'a io \<Rightarrow> (failure \<Rightarrow> 'a io) \<Rightarrow> 'a io" where
  "try_catch m h = (\<lambda>log. case m log of (Inl e, log') \<Rightarrow> h e log' | (Inr x, log') \<Rightarrow> (Inr x, log'))"

text \<open>\<^verbatim>\<open>Schema.parse(v)\<close>: the parsed value, or a thrown \<^verbatim>\<open>ZodError\<close>.\<close>

definition parse :: "zschema \<Rightarrow> json \<Rightarrow> failure + json" where
  "parse s v =
     (case zparse s [] (Some v) of
        Inl is \<Rightarrow> Inl (ZodError is)
      | Inr None \<Rightarrow> Inr JNull
      | Inr (Some x) \<Rightarrow> Inr x)"

text \<open>
  The read \<^verbatim>\<open>v.k\<close>, which throws a \<^verbatim>\<open>TypeError\<close> when \<open>v\<close> is
  \<^verbatim>\<open>undefined\<close> or \<^verbatim>\<open>null\<close>.
\<close>

definition member :: "json option \<Rightarrow> string \<Rightarrow> failure + json option" where
  "member v k =
     (case v of
        None \<Rightarrow> Inl (Error ''TypeError'')
      | Some JNull \<Rightarrow> Inl (Error ''TypeError'')
      | Some x \<Rightarrow> Inr (get_prop x k))"

text \<open>A response is a success when its status is 2xx.\<close>

definition ok :: "response \<Rightarrow> bool" where
  "ok r = (200 \<le> status r \<and> status r < 300)"

definition mk_request ::
  "string \<Rightarrow> string \<Rightarrow> http_method \<Rightarrow> json option \<Rightarrow> (string \<times> string) list \<Rightarrow> request" where
  "mk_request github_pat u m b hs =
     \<lparr>token = github_pat, url = u, meth = m, body = b, headers = hs\<rparr>"

text \<open>
  Modelled from the spec: \<^verbatim>\<open>githubRequest\<close> of \<^verbatim>\<open>common/utils.ts\<close>, which is not
  among the sources. The spec: one network call with the credential attached; on a
  non-2xx response a classified error carrying the status code and the parsed body; on
  success with an empty body an empty object, otherwise the parsed body; no retries.
\<close>

definition githubRequest ::
  "platform \<Rightarrow> string \<Rightarrow> string \<Rightarrow> http_method \<Rightarrow> json option \<Rightarrow> (string \<times> string) list \<Rightarrow> json io" where
  "githubRequest pf github_pat u m b hs = (\<lambda>log.
     let req = mk_request github_pat u m b hs; r = serve pf log req in
     if ok r
       then (Inr (case resp_body r of None \<Rightarrow> JObj [] | Some j \<Rightarrow> j), log @ [req])
       else (Inl (GitHubFailure (createGitHubError pf (status r) (resp_headers r) (resp_body r))),
             log @ [req]))"

section \<open>File operations (operations/files.ts)\<close>

text \<open>The template \<^verbatim>\<open>`https://api.github.com/repos/${owner}/${repo}${rest}`\<close>.\<close>

definition repos_url :: "string \<Rightarrow> string \<Rightarrow> string \<Rightarrow> string" where
  "repos_url owner repo rest = ''https://api.github.com/repos/'' @ owner @ ''/'' @ repo @ rest"

definition FileOperationSchema :: zschema where
  "FileOperationSchema = ZObject [(''path'', ZString), (''content'', ZString)]"

definition CreateOrUpdateFileSchema :: zschema where
  "CreateOrUpdateFileSchema = ZObject
     [(''owner'', ZString), (''repo'', ZString), (''path'', ZString), (''content'', ZString),
      (''message'', ZString), (''branch'', ZString), (''sha'', ZOptional ZString)]"

definition CreateOrUpdateFileSchema' :: zschema where
  "CreateOrUpdateFileSchema' = zextend CreateOrUpdateFileSchema [(''github_pat'', ZString)]"

definition GetFileContentsSchema :: zschema where
  "GetFileContentsSchema = ZObject
     [(''owner'', ZString), (''repo'', ZString), (''path'', ZString),
      (''encoded'', ZOptional ZBoolean), (''branch'', ZOptional ZString)]"

definition GetFileContentsSchema' :: zschema where
  "GetFileContentsSchema' = zextend GetFileContentsSchema [(''github_pat'', ZString)]"

definition PushFilesSchema :: zschema where
  "PushFilesSchema = ZObject
     [(''owner'', ZString), (''repo'', ZString), (''branch'', ZString),
      (''files'', ZArray FileOperationSchema), (''message'', ZString)]"

definition PushFilesSchema' :: zschema where
  "PushFilesSchema' = zextend PushFilesSchema [(''github_pat'', ZString)]"

definition GitHubCreateUpdateFileResponseSchema :: "platform \<Rightarrow> zschema" where
  "GitHubCreateUpdateFileResponseSchema pf = ZObject
     [(''content'', ZNullable (GitHubFileContentSchema pf)),
      (''commit'', ZObject
         [(''sha'', ZString), (''node_id'', ZString), (''url'', ZString), (''html_url'', ZString),
          (''author'', GitHubAuthorSchema pf), (''committer'', GitHubAuthorSchema pf),
          (''message'', ZString),
          (''tree'', ZObject [(''sha'', ZString), (''url'', ZString)]),
          (''parents'', ZArray (ZObject [(''sha'', ZString), (''url'', ZString), (''html_url'', ZString)]))])]"

text \<open>
  \<^verbatim>\<open>getFileContents\<close>. The parameter \<open>encoded\<close> has the default \<^verbatim>\<open>false\<close>. The
  static type of \<^verbatim>\<open>data.content\<close> is a string; a truthy value of another type cannot
  be decoded and is a \<^verbatim>\<open>TypeError\<close> here.
\<close>

definition contents_url :: "string \<Rightarrow> string \<Rightarrow> string \<Rightarrow> string" where
  "contents_url owner repo path = repos_url owner repo (''/contents/'' @ path)"

definition decode_content :: "platform \<Rightarrow> bool \<Rightarrow> json \<Rightarrow> failure + json" where
  "decode_content pf encoded data =
     (case data of
        JArr xs \<Rightarrow> Inr data
      | _ \<Rightarrow>
        (case member (Some data) ''content'' of
           Inl e \<Rightarrow> Inl e
         | Inr c \<Rightarrow>
             if truthy c \<and> \<not> encoded then
               (case (data, c) of
                  (JObj kvs, Some (JStr s)) \<Rightarrow>
                    Inr (JObj (AList.update ''encoding'' (JStr ''utf8'')
                                (AList.update ''content'' (JStr (base64_to_utf8 pf s)) kvs)))
                | _ \<Rightarrow> Inl (Error ''TypeError''))
             else Inr data))"

definition getFileContents ::
  "platform \<Rightarrow> string \<Rightarrow> string \<Rightarrow> string \<Rightarrow> string \<Rightarrow> bool option \<Rightarrow> string option \<Rightarrow> json io" where
  "getFileContents pf github_pat owner repo path encoded_opt branch =
     (let encoded = (case encoded_opt of None \<Rightarrow> False | Some e \<Rightarrow> e);
          u = contents_url owner repo path;
          u' = (case branch of None \<Rightarrow> u | Some b \<Rightarrow> if b \<noteq> [] then u @ ''?ref='' @ b else u)
      in bind (githubRequest pf github_pat u' GET None []) (\<lambda>response.
         bind (lift (parse (GitHubContentSchema pf) response)) (\<lambda>data.
         lift (decode_content pf encoded data))))"

text \<open>
  \<^verbatim>\<open>createOrUpdateFile\<close>. The \<^verbatim>\<open>catch\<close> block only writes a note to the error
  stream, which is not part of the model.
\<close>

definition probe_sha ::
  "platform \<Rightarrow> string \<Rightarrow> string \<Rightarrow> string \<Rightarrow> string \<Rightarrow> string \<Rightarrow> json option \<Rightarrow> json option io" where
  "probe_sha pf github_pat owner repo path branch currentSha =
     try_catch
       (bind (getFileContents pf github_pat owner repo path None (Some branch)) (\<lambda>existingFile.
          case existingFile of
            JArr xs \<Rightarrow> ret currentSha
          | _ \<Rightarrow> lift (member (Some existingFile) ''sha'')))
       (\<lambda>error. ret currentSha)"

definition put_body :: "platform \<Rightarrow> string \<Rightarrow> string \<Rightarrow> string \<Rightarrow> json option \<Rightarrow> json" where
  "put_body pf content message branch currentSha =
     JObj ([(''message'', JStr message), (''content'', JStr (utf8_to_base64 pf content)),
            (''branch'', JStr branch)]
           @ (if truthy currentSha then obj [(''sha'', currentSha)] else []))"

definition createOrUpdateFile ::
  "platform \<Rightarrow> string \<Rightarrow> string \<Rightarrow> string \<Rightarrow> string \<Rightarrow> string \<Rightarrow> string \<Rightarrow> string \<Rightarrow> string option \<Rightarrow> json io" where
  "createOrUpdateFile pf github_pat owner repo path content message branch sha =
     bind (if \<not> truthy (map_option JStr sha)
           then probe_sha pf github_pat owner repo path branch (map_option JStr sha)
           else ret (map_option JStr sha)) (\<lambda>currentSha.
     bind (githubRequest pf github_pat (contents_url owner repo path) PUT
             (Some (put_body pf content message branch currentSha)) []) (\<lambda>response.
     lift (parse (GitHubCreateUpdateFileResponseSchema pf) response)))"

text \<open>\<^verbatim>\<open>createTree\<close>, \<^verbatim>\<open>createCommit\<close>, \<^verbatim>\<open>updateReference\<close> and \<^verbatim>\<open>pushFiles\<close>.\<close>

record FileOperation =
  file_path :: string
  file_content :: string

definition tree_entry :: "FileOperation \<Rightarrow> json" where
  "tree_entry file =
     JObj [(''path'', JStr (file_path file)), (''mode'', JStr ''100644''),
           (''type'', JStr ''blob''), (''content'', JStr (file_content file))]"

definition createTree ::
  "platform \<Rightarrow> string \<Rightarrow> string \<Rightarrow> string \<Rightarrow> FileOperation list \<Rightarrow> json option \<Rightarrow> json io" where
  "createTree pf github_pat owner repo files baseTree =
     bind (githubRequest pf github_pat
             (repos_url owner repo (''/git/trees'')) POST
             (Some (JObj (obj [(''tree'', Some (JArr (map tree_entry files))), (''base_tree'', baseTree)])))
             []) (\<lambda>response.
     lift (parse (GitHubTreeSchema pf) response))"

text \<open>An element of an array literal that is \<^verbatim>\<open>undefined\<close> is sent as \<^verbatim>\<open>null\<close>.\<close>

definition element :: "json option \<Rightarrow> json" where
  "element v = (case v of None \<Rightarrow> JNull | Some x \<Rightarrow> x)"

definition createCommit ::
  "platform \<Rightarrow> string \<Rightarrow> string \<Rightarrow> string \<Rightarrow> string \<Rightarrow> json option \<Rightarrow> json option list \<Rightarrow> json io" where
  "createCommit pf github_pat owner repo message tree parents =
     bind (githubRequest pf github_pat
             (repos_url owner repo (''/git/commits'')) POST
             (Some (JObj (obj [(''message'', Some (JStr message)), (''tree'', tree),
                               (''parents'', Some (JArr (map element parents)))])))
             []) (\<lambda>response.
     lift (parse (GitHubCommitSchema pf) response))"

definition updateReference ::
  "platform \<Rightarrow> string \<Rightarrow> string \<Rightarrow> string \<Rightarrow> string \<Rightarrow> json option \<Rightarrow> json io" where
  "updateReference pf github_pat owner repo ref sha =
     bind (githubRequest pf github_pat
             (repos_url owner repo (''/git/refs/'' @ ref)) PATCH
             (Some (JObj (obj [(''sha'', sha), (''force'', Some (JBool True))])))
             []) (\<lambda>response.
     lift (parse (GitHubReferenceSchema pf) response))"

definition pushFiles ::
  "platform \<Rightarrow> string \<Rightarrow> string \<Rightarrow> string \<Rightarrow> string \<Rightarrow> FileOperation list \<Rightarrow> string \<Rightarrow> json io" where
  "pushFiles pf github_pat owner repo branch files message =
     bind (githubRequest pf github_pat
             (repos_url owner repo (''/git/refs/heads/'' @ branch))
             GET None []) (\<lambda>refResponse.
     bind (lift (parse (GitHubReferenceSchema pf) refResponse)) (\<lambda>ref.
     bind (lift (member (Some ref) ''object'')) (\<lambda>ref_object.
     bind (lift (member ref_object ''sha'')) (\<lambda>commitSha.
     bind (createTree pf github_pat owner repo files commitSha) (\<lambda>tree.
     bind (lift (member (Some tree) ''sha'')) (\<lambda>tree_sha.
     bind (createCommit pf github_pat owner repo message tree_sha [commitSha]) (\<lambda>commit.
     bind (lift (member (Some commit) ''sha'')) (\<lambda>commit_sha.
     updateReference pf github_pat owner repo (''heads/'' @ branch) commit_sha))))))))"

section \<open>Branch operations (operations/branches.ts)\<close>

definition CreateBranchSchema :: zschema where
  "CreateBranchSchema = ZObject
     [(''owner'', ZString), (''repo'', ZString), (''branch'', ZString),
      (''from_branch'', ZOptional ZString)]"

text \<open>
  \<^verbatim>\<open>GitHubReferenceSchema.parse(response).object.sha\<close>: the two statements that follow
  each request for a ref, which make no call.
\<close>

definition reference_sha :: "platform \<Rightarrow> json \<Rightarrow> failure + json option" where
  "reference_sha pf response =
     (case parse (GitHubReferenceSchema pf) response of
        Inl e \<Rightarrow> Inl e
      | Inr data \<Rightarrow>
         (case member (Some data) ''object'' of
            Inl e \<Rightarrow> Inl e
          | Inr data_object \<Rightarrow> member data_object ''sha''))"

definition getDefaultBranchSHA :: "platform \<Rightarrow> string \<Rightarrow> string \<Rightarrow> string \<Rightarrow> json option io" where
  "getDefaultBranchSHA pf github_pat owner repo =
     try_catch
       (bind (githubRequest pf github_pat (repos_url owner repo ''/git/refs/heads/main'') GET None [])
          (\<lambda>response. lift (reference_sha pf response)))
       (\<lambda>error.
          bind (githubRequest pf github_pat (repos_url owner repo ''/git/refs/heads/master'') GET None [])
            (\<lambda>masterResponse.
               if \<not> truthy (Some masterResponse)
               then throw (Error ''Could not find default branch (tried 'main' and 'master')'')
               else lift (reference_sha pf masterResponse)))"

definition createBranch ::
  "platform \<Rightarrow> string \<Rightarrow> string \<Rightarrow> string \<Rightarrow> string \<Rightarrow> json option \<Rightarrow> json io" where
  "createBranch pf github_pat owner repo ref sha =
     bind (githubRequest pf github_pat (repos_url owner repo ''/git/refs'') POST
             (Some (JObj (obj [(''ref'', Some (JStr (''refs/heads/'' @ ref))), (''sha'', sha)]))) [])
       (\<lambda>response. lift (parse (GitHubReferenceSchema pf) response))"

definition getBranchSHA ::
  "platform \<Rightarrow> string \<Rightarrow> string \<Rightarrow> string \<Rightarrow> string \<Rightarrow> json option io" where
  "getBranchSHA pf github_pat owner repo branch =
     bind (githubRequest pf github_pat (repos_url owner repo (''/git/refs/heads/'' @ branch)) GET None [])
       (\<lambda>response. lift (reference_sha pf response))"

text \<open>\<^verbatim>\<open>if (fromBranch)\<close> is false for \<^verbatim>\<open>undefined\<close> and for the empty string.\<close>

definition createBranchFromRef ::
  "platform \<Rightarrow> string \<Rightarrow> string \<Rightarrow> string \<Rightarrow> string \<Rightarrow> string option \<Rightarrow> json io" where
  "createBranchFromRef pf github_pat owner repo newBranch fromBranch =
     bind (case fromBranch of
             Some b \<Rightarrow> if b \<noteq> [] then getBranchSHA pf github_pat owner repo b
                       else getDefaultBranchSHA pf github_pat owner repo
           | None \<Rightarrow> getDefaultBranchSHA pf github_pat owner repo)
       (\<lambda>sha. createBranch pf github_pat owner repo newBranch sha)"

section \<open>Release operations (operations/releases.ts)\<close>

definition ReleaseAssetSchema :: "platform \<Rightarrow> zschema" where
  "ReleaseAssetSchema pf = ZObject
     [(''url'', ZString), (''id'', ZNumber None None), (''node_id'', ZString), (''name'', ZString),
      (''label'', ZNullable ZString), (''content_type'', ZString), (''state'', ZString),
      (''size'', ZNumber None None), (''download_count'', ZNumber None None),
      (''created_at'', ZString), (''updated_at'', ZString), (''browser_download_url'', ZString),
      (''uploader'', ZNullable (GitHubIssueAssigneeSchema pf))]"

definition UploadReleaseAssetSchema :: zschema where
  "UploadReleaseAssetSchema = ZObject
     [(''owner'', ZString), (''repo'', ZString), (''release_id'', ZNumber None None),
      (''name'', ZString), (''label'', ZOptional ZString), (''content'', ZString),
      (''content_type'', ZString)]"

definition UploadReleaseAssetSchema' :: zschema where
  "UploadReleaseAssetSchema' = zextend UploadReleaseAssetSchema [(''github_pat'', ZString)]"

text \<open>\<^verbatim>\<open>s.replace(pat, rep)\<close> with a string pattern: the first occurrence is replaced.\<close>

fun replace_first :: "string \<Rightarrow> string \<Rightarrow> string \<Rightarrow> string" where
  "replace_first pat rep [] = (if pat = [] then rep else [])"
| "replace_first pat rep (c # cs) =
     (if prefix pat (c # cs) then rep @ drop (length pat) (c # cs)
      else c # replace_first pat rep cs)"

text \<open>
  \<^verbatim>\<open>(release as any).upload_url.replace("{?name,label}", "")\<close>: a \<^verbatim>\<open>TypeError\<close>
  unless \<^verbatim>\<open>upload_url\<close> is a string.
\<close>

definition upload_url_of :: "json \<Rightarrow> failure + string" where
  "upload_url_of release =
     (case member (Some release) ''upload_url'' of
        Inl e \<Rightarrow> Inl e
      | Inr (Some (JStr s)) \<Rightarrow> Inr (replace_first ''{?name,label}'' [] s)
      | Inr _ \<Rightarrow> Inl (Error ''TypeError''))"

text \<open>
  \<^verbatim>\<open>new URL(uploadUrl)\<close> followed by \<^verbatim>\<open>searchParams.append\<close> and
  \<^verbatim>\<open>toString()\<close> is \<open>url_with_params\<close> of the platform, \<open>None\<close> when the
  constructor rejects the string.
\<close>

definition asset_url :: "platform \<Rightarrow> string \<Rightarrow> string \<Rightarrow> string option \<Rightarrow> failure + string" where
  "asset_url pf uploadUrl name label =
     (case url_with_params pf uploadUrl
             ((''name'', name) # (case label of Some l \<Rightarrow> if l \<noteq> [] then [(''label'', l)] else [] | None \<Rightarrow> []))
      of None \<Rightarrow> Inl (Error ''TypeError: Invalid URL'')
       | Some u \<Rightarrow> Inr u)"

definition uploadReleaseAsset ::
  "platform \<Rightarrow> string \<Rightarrow> string \<Rightarrow> string \<Rightarrow> int \<Rightarrow> string \<Rightarrow> string \<Rightarrow> string \<Rightarrow> string option \<Rightarrow> json io" where
  "uploadReleaseAsset pf github_pat owner repo release_id name content content_type label =
     bind (githubRequest pf github_pat
             (repos_url owner repo (''/releases/'' @ number_toString pf release_id)) GET None [])
       (\<lambda>release.
     bind (lift (upload_url_of release)) (\<lambda>uploadUrl.
     bind (lift (asset_url pf uploadUrl name label)) (\<lambda>u.
     bind (githubRequest pf github_pat u POST (Some (JStr (base64_to_utf8 pf content)))
             [(''Content-Type'', content_type)]) (\<lambda>response.
     lift (parse (ReleaseAssetSchema pf) response)))))"

section \<open>Commit statuses (operations/statuses.ts)\<close>

definition CommitStatusSchema :: "platform \<Rightarrow> zschema" where
  "CommitStatusSchema pf = ZObject
     [(''url'', ZString), (''id'', ZNumber None None), (''node_id'', ZString),
      (''state'', ZEnum [''error'', ''failure'', ''pending'', ''success'']),
      (''description'', ZNullable ZString), (''target_url'', ZNullable ZString),
      (''context'', ZString), (''created_at'', ZString), (''updated_at'', ZString),
      (''creator'', ZNullable (GitHubIssueAssigneeSchema pf))]"

definition CreateCommitStatusSchema :: zschema where
  "CreateCommitStatusSchema = ZObject
     [(''owner'', ZString), (''repo'', ZString), (''sha'', ZString),
      (''state'', ZEnum [''error'', ''failure'', ''pending'', ''success'']),
      (''target_url'', ZOptional ZString), (''description'', ZOptional ZString),
      (''context'', ZOptional ZString)]"

definition CreateCommitStatusSchema' :: zschema where
  "CreateCommitStatusSchema' = zextend CreateCommitStatusSchema [(''github_pat'', ZString)]"

text \<open>The object literal \<^verbatim>\<open>{...a, ...b}\<close>: a property of \<open>b\<close> replaces that of \<open>a\<close>.\<close>

definition spread :: "(string \<times> json) list \<Rightarrow> (string \<times> json) list \<Rightarrow> (string \<times> json) list" where
  "spread a b = foldl (\<lambda>acc (k, v). AList.update k v acc) a b"

definition createCommitStatus ::
  "platform \<Rightarrow> string \<Rightarrow> string \<Rightarrow> string \<Rightarrow> string \<Rightarrow> string \<Rightarrow> (string \<times> json) list \<Rightarrow> json io" where
  "createCommitStatus pf github_pat owner repo sha state options =
     bind (githubRequest pf github_pat (repos_url owner repo (''/statuses/'' @ sha)) POST
             (Some (JObj (spread [(''state'', JStr state)] options))) [])
       (\<lambda>response. lift (parse (CommitStatusSchema pf) response))"

section \<open>Issues (operations/issues.ts)\<close>

definition ListIssuesOptionsSchema :: zschema where
  "ListIssuesOptionsSchema = ZObject
     [(''owner'', ZString), (''repo'', ZString),
      (''direction'', ZOptional (ZEnum [''asc'', ''desc''])),
      (''labels'', ZOptional (ZArray ZString)),
      (''page'', ZOptional (ZNumber None None)),
      (''per_page'', ZOptional (ZNumber None None)),
      (''since'', ZOptional ZString),
      (''sort'', ZOptional (ZEnum [''created'', ''updated'', ''comments''])),
      (''state'', ZOptional (ZEnum [''open'', ''closed'', ''all'']))]"

definition ListIssuesOptionsSchema' :: zschema where
  "ListIssuesOptionsSchema' = zextend ListIssuesOptionsSchema [(''github_pat'', ZString)]"

text \<open>Reads of the properties of a parsed record, by the static type of the property.\<close>

definition str_field :: "json \<Rightarrow> string \<Rightarrow> string" where
  "str_field args k = (case get_prop args k of Some (JStr s) \<Rightarrow> s | _ \<Rightarrow> [])"

definition opt_str_field :: "json \<Rightarrow> string \<Rightarrow> string option" where
  "opt_str_field args k = (case get_prop args k of Some (JStr s) \<Rightarrow> Some s | _ \<Rightarrow> None)"

definition num_field :: "json \<Rightarrow> string \<Rightarrow> int" where
  "num_field args k = (case get_prop args k of Some (JNum n) \<Rightarrow> n | _ \<Rightarrow> 0)"

definition opt_num_field :: "json \<Rightarrow> string \<Rightarrow> int option" where
  "opt_num_field args k = (case get_prop args k of Some (JNum n) \<Rightarrow> Some n | _ \<Rightarrow> None)"

definition opt_strs_field :: "json \<Rightarrow> string \<Rightarrow> string list option" where
  "opt_strs_field args k =
     (case get_prop args k of
        Some (JArr xs) \<Rightarrow> Some (map (\<lambda>x. case x of JStr s \<Rightarrow> s | _ \<Rightarrow> []) xs)
      | _ \<Rightarrow> None)"

text \<open>\<^verbatim>\<open>xs.join(",")\<close>.\<close>

fun join :: "string \<Rightarrow> string list \<Rightarrow> string" where
  "join sep [] = []"
| "join sep [x] = x"
| "join sep (x # y # ys) = x @ sep @ join sep (y # ys)"

definition listIssues :: "platform \<Rightarrow> string \<Rightarrow> string \<Rightarrow> string \<Rightarrow> json \<Rightarrow> json io" where
  "listIssues pf github_pat owner repo options =
     githubRequest pf github_pat
       (buildUrl pf (repos_url owner repo ''/issues'')
          [(''direction'', opt_str_field options ''direction''),
           (''labels'', map_option (join '','') (opt_strs_field options ''labels'')),
           (''page'', map_option (number_toString pf) (opt_num_field options ''page'')),
           (''per_page'', map_option (number_toString pf) (opt_num_field options ''per_page'')),
           (''since'', opt_str_field options ''since''),
           (''sort'', opt_str_field options ''sort''),
           (''state'', opt_str_field options ''state'')])
       GET None []"

section \<open>The dispatcher (index.ts)\<close>

definition newline :: string where
  "newline = [CHR 0x0A]"

definition formatGitHubError :: "platform \<Rightarrow> github_error \<Rightarrow> string" where
  "formatGitHubError pf error =
     (case error of
        GitHubValidationError m st resp \<Rightarrow>
          ''Validation Error: '' @ m
            @ (case resp of
                 Some j \<Rightarrow> if truthy resp then newline @ ''Details: '' @ JSON_stringify pf j else []
               | None \<Rightarrow> [])
      | GitHubResourceNotFoundError m \<Rightarrow> ''Not Found: '' @ m
      | GitHubAuthenticationError m \<Rightarrow> ''Authentication Failed: '' @ m
      | GitHubPermissionError m \<Rightarrow> ''Permission Denied: '' @ m
      | GitHubRateLimitError m resetAt \<Rightarrow>
          ''Rate Limit Exceeded: '' @ m @ newline @ ''Resets at: '' @ toISOString pf resetAt
      | GitHubConflictError m \<Rightarrow> ''Conflict: '' @ m
      | GitHubError m st resp \<Rightarrow> ''GitHub API Error: '' @ m)"

text \<open>
  \<^verbatim>\<open>s.trim()\<close>. A string is the sequence of the bytes of its UTF-8 encoding, so the
  white space and line terminators that \<^verbatim>\<open>String.prototype.trim\<close> removes are byte
  sequences: U+0009 to U+000D, U+0020, U+00A0, U+1680, U+2000 to U+200A, U+2028, U+2029,
  U+202F, U+205F, U+3000 and U+FEFF. \<open>strip ws\<close> removes the sequences of \<open>ws\<close> from
  the start of a string; the end is the start of the reversed string.
\<close>

definition white_space :: "string list" where
  "white_space =
     [[CHR 0x09], [CHR 0x0A], [CHR 0x0B], [CHR 0x0C], [CHR 0x0D], [CHR 0x20],
      [CHR 0xC2, CHR 0xA0],
      [CHR 0xE1, CHR 0x9A, CHR 0x80],
      [CHR 0xE2, CHR 0x80, CHR 0x80], [CHR 0xE2, CHR 0x80, CHR 0x81], [CHR 0xE2, CHR 0x80, CHR 0x82],
      [CHR 0xE2, CHR 0x80, CHR 0x83], [CHR 0xE2, CHR 0x80, CHR 0x84], [CHR 0xE2, CHR 0x80, CHR 0x85],
      [CHR 0xE2, CHR 0x80, CHR 0x86], [CHR 0xE2, CHR 0x80, CHR 0x87], [CHR 0xE2, CHR 0x80, CHR 0x88],
      [CHR 0xE2, CHR 0x80, CHR 0x89], [CHR 0xE2, CHR 0x80, CHR 0x8A],
      [CHR 0xE2, CHR 0x80, CHR 0xA8], [CHR 0xE2, CHR 0x80, CHR 0xA9], [CHR 0xE2, CHR 0x80, CHR 0xAF],
      [CHR 0xE2, CHR 0x81, CHR 0x9F],
      [CHR 0xE3, CHR 0x80, CHR 0x80],
      [CHR 0xEF, CHR 0xBB, CHR 0xBF]]"

fun strip :: "string list \<Rightarrow> string \<Rightarrow> string" where
  "strip ws (a # b # c # s) =
     (if [a] \<in> set ws then strip ws (b # c # s)
      else if [a, b] \<in> set ws then strip ws (c # s)
      else if [a, b, c] \<in> set ws then strip ws s
      else a # b # c # s)"
| "strip ws [a, b] =
     (if [a] \<in> set ws then strip ws [b]
      else if [a, b] \<in> set ws then []
      else [a, b])"
| "strip ws [a] = (if [a] \<in> set ws then [] else [a])"
| "strip ws [] = []"

definition trim :: "string \<Rightarrow> string" where
  "trim s = rev (strip (map rev white_space) (rev (strip white_space s)))"

text \<open>
  The process environment is a partial map from names to strings. \<open>usable\<close> is
  \<^verbatim>\<open>process.env.X != null && process.env.X.trim() !== ""\<close>.
\<close>

definition usable :: "string option \<Rightarrow> bool" where
  "usable v = (case v of None \<Rightarrow> False | Some s \<Rightarrow> trim s \<noteq> [])"

text \<open>
  The credential part of the request handler: when \<^verbatim>\<open>params.arguments.github_pat\<close> is
  falsy, it is assigned from the environment, or the handler throws.
\<close>

definition resolve_credential ::
  "(string \<Rightarrow> string option) \<Rightarrow> (string \<times> json) list \<Rightarrow> failure + (string \<times> json) list" where
  "resolve_credential env arguments =
     (if \<not> truthy (map_of arguments ''github_pat'') then
        (case (if usable (env ''GITHUB_PAT'') then env ''GITHUB_PAT''
               else if usable (env ''GITHUB_PERSONAL_ACCESS_TOKEN'')
                 then env ''GITHUB_PERSONAL_ACCESS_TOKEN''
               else None) of
           Some v \<Rightarrow> Inr (AList.update ''github_pat'' (JStr v) arguments)
         | None \<Rightarrow> Inl (Error ''GitHub PAT is required''))
      else Inr arguments)"

text \<open>
  Every case of the \<^verbatim>\<open>switch\<close> parses \<^verbatim>\<open>params.arguments\<close> with the schema of the
  tool and then runs the operation on the parsed record, so the \<^verbatim>\<open>switch\<close> is a table
  from tool names to a schema and the rest of the case. \<open>handle\<close> is the body of the
  \<^verbatim>\<open>try\<close> block.
\<close>

type_synonym tool = "zschema \<times> (json \<Rightarrow> string io)"

definition handle ::
  "(string \<Rightarrow> tool option) \<Rightarrow> (string \<Rightarrow> string option) \<Rightarrow> string \<Rightarrow> (string \<times> json) list option \<Rightarrow> string io" where
  "handle tools env name arguments =
     (case arguments of
        None \<Rightarrow> throw (Error ''Arguments are required'')
      | Some a \<Rightarrow>
          bind (lift (resolve_credential env a)) (\<lambda>a'.
            case tools name of
              None \<Rightarrow> throw (Error (''Unknown tool: '' @ name))
            | Some (schema, run) \<Rightarrow> bind (lift (parse schema (JObj a'))) run))"

text \<open>
  The \<^verbatim>\<open>catch\<close> block: what the handler throws is an \<^verbatim>\<open>Error\<close> with a message
  (\<open>Inl\<close>); what it returns is the text of the result (\<open>Inr\<close>).
\<close>

definition surface :: "platform \<Rightarrow> failure \<Rightarrow> string" where
  "surface pf e =
     (case e of
        ZodError is \<Rightarrow> ''Invalid input: '' @ JSON_stringify pf (issues_json pf is)
      | GitHubFailure g \<Rightarrow> formatGitHubError pf g
      | Error m \<Rightarrow> m)"

definition callTool ::
  "platform \<Rightarrow> (string \<Rightarrow> tool option) \<Rightarrow> (string \<Rightarrow> string option) \<Rightarrow> string
     \<Rightarrow> (string \<times> json) list option \<Rightarrow> request list \<Rightarrow> (string + string) \<times> request list" where
  "callTool pf tools env name arguments log =
     (case handle tools env name arguments log of
        (Inl e, log') \<Rightarrow> (Inl (surface pf e), log')
      | (Inr text, log') \<Rightarrow> (Inr text, log'))"

text \<open>
  The cases of the \<^verbatim>\<open>switch\<close> whose schema and operation are among the sources at
  hand. \<open>rest\<close> stands for the other cases. The properties of the parsed record that are
  left after the destructuring \<^verbatim>\<open>{a, b, ...options}\<close> are \<open>without\<close>.
\<close>

definition without :: "string list \<Rightarrow> json \<Rightarrow> (string \<times> json) list" where
  "without ks args = (case args of JObj kvs \<Rightarrow> filter (\<lambda>(k, v). k \<notin> set ks) kvs | _ \<Rightarrow> [])"

definition file_operations :: "json option \<Rightarrow> FileOperation list" where
  "file_operations v =
     (case v of
        Some (JArr xs) \<Rightarrow> map (\<lambda>x. \<lparr>file_path = str_field x ''path'', file_content = str_field x ''content''\<rparr>) xs
      | _ \<Rightarrow> [])"

definition as_text :: "platform \<Rightarrow> json io \<Rightarrow> string io" where
  "as_text pf m = bind m (\<lambda>result. ret (JSON_stringify_pretty pf result))"

definition registry :: "platform \<Rightarrow> (string \<Rightarrow> tool option) \<Rightarrow> string \<Rightarrow> tool option" where
  "registry pf rest name =
     (if name = ''create_or_update_file'' then
        Some (CreateOrUpdateFileSchema', \<lambda>args. as_text pf
          (createOrUpdateFile pf (str_field args ''github_pat'') (str_field args ''owner'')
             (str_field args ''repo'') (str_field args ''path'') (str_field args ''content'')
             (str_field args ''message'') (str_field args ''branch'') (opt_str_field args ''sha'')))
      else if name = ''push_files'' then
        Some (PushFilesSchema', \<lambda>args. as_text pf
          (pushFiles pf (str_field args ''github_pat'') (str_field args ''owner'')
             (str_field args ''repo'') (str_field args ''branch'')
             (file_operations (get_prop args ''files''))
             (str_field args ''message'')))
      else if name = ''list_issues'' then
        Some (ListIssuesOptionsSchema', \<lambda>args. as_text pf
          (listIssues pf (str_field args ''github_pat'') (str_field args ''owner'')
             (str_field args ''repo'') (JObj (without [''github_pat'', ''owner'', ''repo''] args))))
      else if name = ''upload_release_asset'' then
        Some (UploadReleaseAssetSchema', \<lambda>args. as_text pf
          (uploadReleaseAsset pf (str_field args ''github_pat'') (str_field args ''owner'')
             (str_field args ''repo'') (num_field args ''release_id'') (str_field args ''name'')
             (str_field args ''content'') (str_field args ''content_type'')
             (opt_str_field args ''label'')))
      else if name = ''create_commit_status'' then
        Some (CreateCommitStatusSchema', \<lambda>args. as_text pf
          (createCommitStatus pf (str_field args ''github_pat'') (str_field args ''owner'')
             (str_field args ''repo'') (str_field args ''sha'') (str_field args ''state'')
             (without [''github_pat'', ''owner'', ''repo'', ''sha'', ''state''] args)))
      else rest name)"

section \<open>Notions used to state the properties\<close>

text \<open>The value that a successful call returns, and the failure that a refused call throws.\<close>

definition payload :: "response \<Rightarrow> json" where
  "payload r = (case resp_body r of None \<Rightarrow> JObj [] | Some j \<Rightarrow> j)"

definition classified :: "platform \<Rightarrow> response \<Rightarrow> failure" where
  "classified pf r = GitHubFailure (createGitHubError pf (status r) (resp_headers r) (resp_body r))"

definition meth_url :: "request \<Rightarrow> http_method \<times> string" where
  "meth_url q = (meth q, url q)"

text \<open>The four calls of a file push: fetch the ref, create a tree, create a commit, update the ref.\<close>

definition pushFiles_plan :: "string \<Rightarrow> string \<Rightarrow> string \<Rightarrow> (http_method \<times> string) list" where
  "pushFiles_plan owner repo branch =
     [(GET, repos_url owner repo (''/git/refs/heads/'' @ branch)),
      (POST, repos_url owner repo ''/git/trees''),
      (POST, repos_url owner repo ''/git/commits''),
      (PATCH, repos_url owner repo (''/git/refs/heads/'' @ branch))]"

text \<open>
  The outcome of one call: the failure of a refused request, or what the statements that
  follow the request make of the value returned, which may be a failure too.
\<close>

definition step :: "platform \<Rightarrow> request list \<Rightarrow> request \<Rightarrow> (json \<Rightarrow> failure + 'a) \<Rightarrow> failure + 'a" where
  "step pf log q read =
     (if ok (serve pf log q) then read (payload (serve pf log q))
      else Inl (classified pf (serve pf log q)))"

text \<open>\<^verbatim>\<open>Schema.parse(response).sha\<close>.\<close>

definition sha_of :: "zschema \<Rightarrow> json \<Rightarrow> failure + json option" where
  "sha_of schema response =
     (case parse schema response of Inl e \<Rightarrow> Inl e | Inr v \<Rightarrow> member (Some v) ''sha'')"

text \<open>The four requests of a file push, with their bodies.\<close>

definition ref_request :: "string \<Rightarrow> string \<Rightarrow> string \<Rightarrow> string \<Rightarrow> request" where
  "ref_request t owner repo branch =
     mk_request t (repos_url owner repo (''/git/refs/heads/'' @ branch)) GET None []"

definition tree_request :: "string \<Rightarrow> string \<Rightarrow> string \<Rightarrow> FileOperation list \<Rightarrow> json option \<Rightarrow> request" where
  "tree_request t owner repo files commitSha =
     mk_request t (repos_url owner repo ''/git/trees'') POST
       (Some (JObj (obj [(''tree'', Some (JArr (map tree_entry files))), (''base_tree'', commitSha)]))) []"

definition commit_request ::
  "string \<Rightarrow> string \<Rightarrow> string \<Rightarrow> string \<Rightarrow> json option \<Rightarrow> json option \<Rightarrow> request" where
  "commit_request t owner repo message tree_sha commitSha =
     mk_request t (repos_url owner repo ''/git/commits'') POST
       (Some (JObj (obj [(''message'', Some (JStr message)), (''tree'', tree_sha),
                         (''parents'', Some (JArr [element commitSha]))]))) []"

definition update_request :: "string \<Rightarrow> string \<Rightarrow> string \<Rightarrow> string \<Rightarrow> json option \<Rightarrow> request" where
  "update_request t owner repo branch commit_sha =
     mk_request t (repos_url owner repo (''/git/refs/heads/'' @ branch)) PATCH
       (Some (JObj (obj [(''sha'', commit_sha), (''force'', Some (JBool True))]))) []"

text \<open>
  A file push as a sequence of four calls, each made only when the call before it was
  answered and its response was accepted: the failure of a call ends the push with that
  failure, and the push returns what the last call returns.
\<close>

definition four_calls ::
  "platform \<Rightarrow> string \<Rightarrow> string \<Rightarrow> string \<Rightarrow> string \<Rightarrow> FileOperation list \<Rightarrow> string \<Rightarrow> json io" where
  "four_calls pf t owner repo branch files message log =
     (case step pf log (ref_request t owner repo branch) (reference_sha pf) of
        Inl e \<Rightarrow> (Inl e, log @ [ref_request t owner repo branch])
      | Inr commitSha \<Rightarrow>
        (case step pf (log @ [ref_request t owner repo branch])
                (tree_request t owner repo files commitSha) (sha_of (GitHubTreeSchema pf)) of
           Inl e \<Rightarrow> (Inl e, log @ [ref_request t owner repo branch,
                                   tree_request t owner repo files commitSha])
         | Inr tree_sha \<Rightarrow>
           (case step pf (log @ [ref_request t owner repo branch,
                                 tree_request t owner repo files commitSha])
                   (commit_request t owner repo message tree_sha commitSha)
                   (sha_of (GitHubCommitSchema pf)) of
              Inl e \<Rightarrow> (Inl e, log @ [ref_request t owner repo branch,
                                      tree_request t owner repo files commitSha,
                                      commit_request t owner repo message tree_sha commitSha])
            | Inr commit_sha \<Rightarrow>
                (step pf (log @ [ref_request t owner repo branch,
                                 tree_request t owner repo files commitSha,
                                 commit_request t owner repo message tree_sha commitSha])
                   (update_request t owner repo branch commit_sha)
                   (parse (GitHubReferenceSchema pf)),
                 log @ [ref_request t owner repo branch,
                        tree_request t owner repo files commitSha,
                        commit_request t owner repo message tree_sha commitSha,
                        update_request t owner repo branch commit_sha]))))"

text \<open>
  A field of an object schema is required when its schema does not accept
  \<^verbatim>\<open>undefined\<close>.
\<close>

fun required :: "zschema \<Rightarrow> bool" where
  "required (ZOptional s) = False"
| "required ZAny = False"
| "required (ZNullable s) = required s"
| "required s = True"

text \<open>The requests of the operations, as the source builds them.\<close>

definition contents_request :: "string \<Rightarrow> string \<Rightarrow> string \<Rightarrow> string \<Rightarrow> string option \<Rightarrow> request" where
  "contents_request t owner repo path branch =
     mk_request t
       (case branch of
          None \<Rightarrow> contents_url owner repo path
        | Some b \<Rightarrow> if b \<noteq> [] then contents_url owner repo path @ ''?ref='' @ b
                  else contents_url owner repo path)
       GET None []"

definition create_request ::
  "platform \<Rightarrow> string \<Rightarrow> string \<Rightarrow> string \<Rightarrow> string \<Rightarrow> string \<Rightarrow> string \<Rightarrow> string \<Rightarrow> request" where
  "create_request pf t owner repo path content message branch =
     mk_request t (contents_url owner repo path) PUT
       (Some (JObj [(''message'', JStr message), (''content'', JStr (utf8_to_base64 pf content)),
                    (''branch'', JStr branch)])) []"



definition main_probe :: "string \<Rightarrow> string \<Rightarrow> string \<Rightarrow> request" where
  "main_probe t owner repo = mk_request t (repos_url owner repo ''/git/refs/heads/main'') GET None []"

definition master_probe :: "string \<Rightarrow> string \<Rightarrow> string \<Rightarrow> request" where
  "master_probe t owner repo = mk_request t (repos_url owner repo ''/git/refs/heads/master'') GET None []"

text \<open>
  The credential of an invocation as the specification words it: the explicit field when
  it is present, otherwise the first of the two environment variables that is set and not
  the empty string, otherwise none.
\<close>

definition specified_credential ::
  "(string \<Rightarrow> string option) \<Rightarrow> (string \<times> json) list \<Rightarrow> json option" where
  "specified_credential env arguments =
     (case map_of arguments ''github_pat'' of
        Some v \<Rightarrow> Some v
      | None \<Rightarrow>
         (case env ''GITHUB_PAT'' of
            Some s \<Rightarrow> if s \<noteq> [] then Some (JStr s)
                      else (case env ''GITHUB_PERSONAL_ACCESS_TOKEN'' of
                              Some s' \<Rightarrow> if s' \<noteq> [] then Some (JStr s') else None
                            | None \<Rightarrow> None)
          | None \<Rightarrow>
             (case env ''GITHUB_PERSONAL_ACCESS_TOKEN'' of
                Some s' \<Rightarrow> if s' \<noteq> [] then Some (JStr s') else None
              | None \<Rightarrow> None)))"

text \<open>A failure surfaced by the dispatcher is an invalid-argument failure when its message says so.\<close>

definition invalid_argument :: "string \<Rightarrow> bool" where
  "invalid_argument msg = prefix ''Invalid input: '' msg"

definition resource_not_found :: "failure \<Rightarrow> bool" where
  "resource_not_found e = (case e of GitHubFailure (GitHubResourceNotFoundError m) \<Rightarrow> True | _ \<Rightarrow> False)"

section \<open>A platform and servers for concrete runs\<close>

text \<open>
  A platform for the examples: the schemas of \<^verbatim>\<open>common/types.ts\<close> reduced to the
  properties that the operations read, decimal numerals, a compact rendering of JSON
  values, and the base64 codec on the one text that the examples encode.
\<close>

fun show_nat :: "nat \<Rightarrow> string" where
  "show_nat n =
     (if n < 10 then [char_of (48 + n)] else show_nat (n div 10) @ [char_of (48 + n mod 10)])"

declare show_nat.simps [simp del]

definition show_int :: "int \<Rightarrow> string" where
  "show_int i = (if i < 0 then ''-'' @ show_nat (nat (- i)) else show_nat (nat i))"

fun show_json :: "json \<Rightarrow> string" where
  "show_json JNull = ''null''"
| "show_json (JBool b) = (if b then ''true'' else ''false'')"
| "show_json (JNum n) = show_int n"
| "show_json (JStr s) = [CHR 0x22] @ s @ [CHR 0x22]"
| "show_json (JArr xs) = ''['' @ join '','' (map show_json xs) @ '']''"
| "show_json (JObj kvs) =
     ''{'' @ join '','' (map (\<lambda>(k, v). [CHR 0x22] @ k @ [CHR 0x22] @ '':'' @ show_json v) kvs) @ ''}''"

definition example_platform :: "(request list \<Rightarrow> request \<Rightarrow> response) \<Rightarrow> platform" where
  "example_platform srv =
     \<lparr>serve = srv,
      error_message = (\<lambda>st b. case b of
                         Some (JObj kvs) \<Rightarrow> (case map_of kvs ''message'' of Some (JStr m) \<Rightarrow> m | _ \<Rightarrow> ''GitHub API error'')
                       | _ \<Rightarrow> ''GitHub API error''),
      reset_timestamp = (\<lambda>hs b. 1700000000),
      GitHubReferenceSchema = ZObject [(''ref'', ZString), (''object'', ZObject [(''sha'', ZString)])],
      GitHubTreeSchema = ZObject [(''sha'', ZString)],
      GitHubCommitSchema = ZObject [(''sha'', ZString)],
      GitHubContentSchema =
        ZObject [(''name'', ZString), (''path'', ZString), (''sha'', ZString),
                 (''content'', ZString), (''encoding'', ZString)],
      GitHubFileContentSchema =
        ZObject [(''name'', ZString), (''path'', ZString), (''sha'', ZString)],
      GitHubAuthorSchema = ZObject [(''name'', ZString), (''email'', ZString)],
      GitHubIssueAssigneeSchema = ZObject [(''login'', ZString)],
      base64_to_utf8 = (\<lambda>s. if s = ''aGk='' then ''hi'' else []),
      utf8_to_base64 = (\<lambda>s. if s = ''hi'' then ''aGk='' else []),
      url_with_params = (\<lambda>u ps. if u = [] then None
                          else Some (u @ ''?'' @ concat (map (\<lambda>(k, v). k @ ''='' @ v @ ''&'') ps))),
      buildUrl = (\<lambda>u ps. u),
      JSON_stringify = show_json,
      JSON_stringify_pretty = show_json,
      issues_json = (\<lambda>is. JArr (map (\<lambda>i. JObj [(''code'', JStr (zcode i)), (''path'', JArr (zpath i))]) is)),
      toISOString = (\<lambda>t. ''@'' @ show_int t),
      number_toString = show_int\<rparr>"

definition answer :: "nat \<Rightarrow> json option \<Rightarrow> response" where
  "answer st b = \<lparr>status = st, resp_headers = [], resp_body = b\<rparr>"

text \<open>A server that refuses every request with the given status.\<close>

definition refusing :: "nat \<Rightarrow> request list \<Rightarrow> request \<Rightarrow> response" where
  "refusing st log q = answer st None"

text \<open>A repository in which refs, trees and files exist, and which fails to create commits.\<close>

definition a_reference :: json where
  "a_reference = JObj [(''ref'', JStr ''refs/heads/main''), (''object'', JObj [(''sha'', JStr ''c0'')])]"

definition a_file :: "string \<Rightarrow> json" where
  "a_file c = JObj [(''name'', JStr ''a.txt''), (''path'', JStr ''a.txt''), (''sha'', JStr ''f0''),
                    (''content'', JStr c), (''encoding'', JStr ''base64'')]"

text \<open>A server that answers every request with status 200 and the given body.\<close>

definition serving :: "json \<Rightarrow> request list \<Rightarrow> request \<Rightarrow> response" where
  "serving j log q = answer 200 (Some j)"

text \<open>A repository whose contents cannot be read with the token, but can be written.\<close>

definition a_commit :: json where
  "a_commit = JObj
     [(''content'', JNull),
      (''commit'', JObj
         [(''sha'', JStr ''c1''), (''node_id'', JStr ''n''), (''url'', JStr ''u''), (''html_url'', JStr ''h''),
          (''author'', JObj [(''name'', JStr ''a''), (''email'', JStr ''e'')]),
          (''committer'', JObj [(''name'', JStr ''a''), (''email'', JStr ''e'')]),
          (''message'', JStr ''msg''),
          (''tree'', JObj [(''sha'', JStr ''t1''), (''url'', JStr ''u'')]),
          (''parents'', JArr [])])]"

definition unreadable :: "request list \<Rightarrow> request \<Rightarrow> response" where
  "unreadable log q = (if meth q = GET then answer 403 None else answer 201 (Some a_commit))"

text \<open>A release whose assets can be uploaded.\<close>

definition a_release :: json where
  "a_release = JObj [(''id'', JNum 7), (''upload_url'', JStr ''https://uploads.example/7/assets{?name,label}'')]"

definition releases :: "request list \<Rightarrow> request \<Rightarrow> response" where
  "releases log q = (if meth q = GET then answer 200 (Some a_release) else answer 422 None)"

definition broken_commits :: "request list \<Rightarrow> request \<Rightarrow> response" where
  "broken_commits log q =
     (if url q = repos_url ''o'' ''r'' ''/git/commits'' then answer 500 None
      else if url q = repos_url ''o'' ''r'' ''/git/trees'' then answer 201 (Some (JObj [(''sha'', JStr ''t1'')]))
      else answer 200 (Some a_reference))"

definition three_files :: "FileOperation list" where
  "three_files =
     [\<lparr>file_path = ''a'', file_content = ''1''\<rparr>, \<lparr>file_path = ''b'', file_content = ''2''\<rparr>,
      \<lparr>file_path = ''c'', file_content = ''3''\<rparr>]"

text \<open>An environment whose first variable is set to a blank string.\<close>

definition blank_first :: "string \<Rightarrow> string option" where
  "blank_first = map_of [(''GITHUB_PAT'', '' ''), (''GITHUB_PERSONAL_ACCESS_TOKEN'', ''tok'')]"

definition only_second :: "string \<Rightarrow> string option" where
  "only_second = map_of [(''GITHUB_PERSONAL_ACCESS_TOKEN'', ''tok2'')]"

definition both_set :: "string \<Rightarrow> string option" where
  "both_set = map_of [(''GITHUB_PAT'', ''tok1''), (''GITHUB_PERSONAL_ACCESS_TOKEN'', ''tok2'')]"

text \<open>Argument records for \<^verbatim>\<open>create_commit_status\<close> and \<^verbatim>\<open>list_issues\<close>.\<close>

definition status_arguments :: "string \<Rightarrow> (string \<times> json) list" where
  "status_arguments st =
     [(''github_pat'', JStr ''tok''), (''owner'', JStr ''o''), (''repo'', JStr ''r''),
      (''sha'', JStr ''abc''), (''state'', JStr st)]"

definition issues_arguments :: "string \<Rightarrow> (string \<times> json) list" where
  "issues_arguments st =
     [(''github_pat'', JStr ''tok''), (''owner'', JStr ''o''), (''repo'', JStr ''r''),
      (''state'', JStr st)]"

definition no_environment :: "string \<Rightarrow> string option" where
  "no_environment = (\<lambda>name. None)"

definition no_other_tools :: "string \<Rightarrow> tool option" where
  "no_other_tools = (\<lambda>name. None)"

text \<open>An environment whose first variable is set to a no-break space.\<close>

definition nbsp_first :: "string \<Rightarrow> string option" where
  "nbsp_first = map_of [(''GITHUB_PAT'', [CHR 0xC2, CHR 0xA0]), (''GITHUB_PERSONAL_ACCESS_TOKEN'', ''tok2'')]"

text \<open>A repository in which every call of a file push succeeds.\<close>

definition working :: "request list \<Rightarrow> request \<Rightarrow> response" where
  "working log q =
     (if url q = repos_url ''o'' ''r'' ''/git/commits'' then answer 201 (Some (JObj [(''sha'', JStr ''c1'')]))
      else if url q = repos_url ''o'' ''r'' ''/git/trees'' then answer 201 (Some (JObj [(''sha'', JStr ''t1'')]))
      else answer 200 (Some a_reference))"

section \<open>Properties\<close>

subsection \<open>Running the effects\<close>

lemma lift_apply: "lift r log = (r, log)"
  by (simp add: lift_def)

lemma ret_apply: "ret x log = (Inr x, log)"
  by (simp add: ret_def)

lemma throw_apply: "throw e log = (Inl e, log)"
  by (simp add: throw_def)

lemma bind_assoc: "bind (bind m f) g = bind m (\<lambda>x. bind (f x) g)"
  by (auto simp: bind_def fun_eq_iff split: prod.splits sum.splits)

lemma githubRequest_apply:
  "githubRequest pf t u m b hs log =
     (if ok (serve pf log (mk_request t u m b hs))
      then Inr (payload (serve pf log (mk_request t u m b hs)))
      else Inl (classified pf (serve pf log (mk_request t u m b hs))),
      log @ [mk_request t u m b hs])"
  by (simp add: githubRequest_def Let_def payload_def classified_def)

lemma bind_request_cases:
  assumes "bind (githubRequest pf t u m b hs) f log = (r, log')"
  obtains
    (refused) "\<not> ok (serve pf log (mk_request t u m b hs))"
      "r = Inl (classified pf (serve pf log (mk_request t u m b hs)))"
      "log' = log @ [mk_request t u m b hs]"
  | (answered) "ok (serve pf log (mk_request t u m b hs))"
      "f (payload (serve pf log (mk_request t u m b hs))) (log @ [mk_request t u m b hs]) = (r, log')"
  using assms by (auto simp: bind_def githubRequest_apply split: if_splits)

lemma bind_lift_cases:
  assumes "bind (lift v) f log = (r, log')"
  obtains (thrown) e where "v = Inl e" "r = Inl e" "log' = log"
  | (returned) x where "v = Inr x" "f x log = (r, log')"
  using assms by (cases v) (auto simp: bind_def lift_def)

lemma lift_elim:
  assumes "lift v log = (r, log')"
  obtains "r = v" "log' = log"
  using assms by (auto simp: lift_def)

lemma meth_url_mk_request: "meth_url (mk_request t u m b hs) = (m, u)"
  by (simp add: meth_url_def mk_request_def)

lemma example_platform_sel:
  "serve (example_platform srv) = srv"
  "error_message (example_platform srv) st None = ''GitHub API error''"
  "reset_timestamp (example_platform srv) hs b = 1700000000"
  "GitHubReferenceSchema (example_platform srv)
     = ZObject [(''ref'', ZString), (''object'', ZObject [(''sha'', ZString)])]"
  "GitHubTreeSchema (example_platform srv) = ZObject [(''sha'', ZString)]"
  "GitHubCommitSchema (example_platform srv) = ZObject [(''sha'', ZString)]"
  "GitHubContentSchema (example_platform srv)
     = ZObject [(''name'', ZString), (''path'', ZString), (''sha'', ZString),
                (''content'', ZString), (''encoding'', ZString)]"
  "GitHubFileContentSchema (example_platform srv)
     = ZObject [(''name'', ZString), (''path'', ZString), (''sha'', ZString)]"
  "GitHubAuthorSchema (example_platform srv) = ZObject [(''name'', ZString), (''email'', ZString)]"
  "GitHubIssueAssigneeSchema (example_platform srv) = ZObject [(''login'', ZString)]"
  "base64_to_utf8 (example_platform srv) s = (if s = ''aGk='' then ''hi'' else [])"
  "utf8_to_base64 (example_platform srv) s = (if s = ''hi'' then ''aGk='' else [])"
  "url_with_params (example_platform srv) u ps
     = (if u = [] then None else Some (u @ ''?'' @ concat (map (\<lambda>(k, v). k @ ''='' @ v @ ''&'') ps)))"
  "buildUrl (example_platform srv) u qs = u"
  "JSON_stringify (example_platform srv) = show_json"
  "JSON_stringify_pretty (example_platform srv) = show_json"
  "issues_json (example_platform srv) is
     = JArr (map (\<lambda>i. JObj [(''code'', JStr (zcode i)), (''path'', JArr (zpath i))]) is)"
  "toISOString (example_platform srv) t = ''@'' @ show_int t"
  "number_toString (example_platform srv) = show_int"
  by (simp_all add: example_platform_def)

lemmas run_simps = bind_def lift_def ret_def throw_def try_catch_def githubRequest_def mk_request_def
  ok_def parse_def member_def Let_def example_platform_sel answer_def repos_url_def
  createGitHubError_def

subsection \<open>Parsing\<close>

lemma collect_issue:
  "(k, Inl is) \<in> set rs \<Longrightarrow> is \<noteq> [] \<Longrightarrow> fst (collect rs) \<noteq> []"
  by (induction rs rule: collect.induct) (auto split: prod.splits)

lemma finish_Inl: "finish is v = Inl js \<Longrightarrow> js = is \<and> is \<noteq> []"
  by (cases "is") auto

lemma finish_nonempty: "is \<noteq> [] \<Longrightarrow> finish is v = Inl is"
  by (cases "is") auto

lemma zparse_issues_nonempty: "zparse s p v = Inl is \<Longrightarrow> is \<noteq> []"
proof (induction s arbitrary: p v "is")
  case ZString then show ?case by (auto split: option.splits json.splits)
next
  case (ZNumber lo hi) then show ?case by (auto split: option.splits json.splits dest: finish_Inl)
next
  case ZBoolean then show ?case by (auto split: option.splits json.splits)
next
  case ZAny then show ?case by simp
next
  case (ZEnum lits) then show ?case by (auto split: option.splits json.splits if_splits)
next
  case (ZArray s) then show ?case by (auto split: option.splits json.splits prod.splits dest: finish_Inl)
next
  case (ZRecord s) then show ?case by (auto split: option.splits json.splits prod.splits dest: finish_Inl)
next
  case (ZObject shape) then show ?case by (auto split: option.splits json.splits prod.splits dest: finish_Inl)
next
  case (ZOptional s) then show ?case by (auto split: option.splits)
next
  case (ZNullable s) then show ?case by (auto split: option.splits json.splits)
qed

text \<open>A field is required exactly when parsing its absence fails.\<close>

lemma zparse_required_iff: "required s \<longleftrightarrow> (\<exists>is. zparse s p None = Inl is)"
  by (induction s) auto

text \<open>An object is rejected as soon as one field of the shape is.\<close>

lemma zparse_object_field_fails:
  assumes "(k, s) \<in> set shape" and "zparse s (p @ [JStr k]) (map_of kvs k) = Inl is"
  shows "\<exists>js. zparse (ZObject shape) p (Some (JObj kvs)) = Inl js \<and> js \<noteq> []"
proof -
  let ?rs = "map (\<lambda>(k, s). (k, zparse s (p @ [JStr k]) (map_of kvs k))) shape"
  have "(k, Inl is) \<in> set ?rs" using assms by force
  moreover have "is \<noteq> []" using assms(2) by (rule zparse_issues_nonempty)
  ultimately have "fst (collect ?rs) \<noteq> []" by (rule collect_issue)
  then show ?thesis
    by (cases "collect ?rs") (simp add: finish_nonempty)
qed

lemma zparse_enum_rejects:
  assumes "v \<notin> JStr ` set lits"
  shows "\<exists>is. zparse (ZEnum lits) p (Some v) = Inl is"
    and "\<exists>is. zparse (ZOptional (ZEnum lits)) p (Some v) = Inl is"
  using assms by (auto split: json.splits)

subsection \<open>File push\<close>

lemma bind_githubRequest_apply:
  "bind (githubRequest pf t u m b hs) f log =
     (if ok (serve pf log (mk_request t u m b hs))
      then f (payload (serve pf log (mk_request t u m b hs))) (log @ [mk_request t u m b hs])
      else (Inl (classified pf (serve pf log (mk_request t u m b hs))), log @ [mk_request t u m b hs]))"
  by (simp add: bind_def githubRequest_apply)

lemma bind_lift_apply:
  "bind (lift v) f log = (case v of Inl e \<Rightarrow> (Inl e, log) | Inr x \<Rightarrow> f x log)"
  by (simp add: bind_def lift_def split: sum.splits)

text \<open>A file push is the sequence of four calls.\<close>

lemma pushFiles_four_calls:
  "pushFiles pf t owner repo branch files message log
     = four_calls pf t owner repo branch files message log"
  unfolding pushFiles_def createTree_def createCommit_def updateReference_def bind_assoc
  by (simp add: bind_githubRequest_apply bind_lift_apply lift_apply four_calls_def step_def
      ref_request_def tree_request_def commit_request_def update_request_def
      reference_sha_def sha_of_def split: sum.splits)


text \<open>
  C2, as amended. A file push, whatever the files, issues its calls in the order fetch
  ref, create tree, create commit, update ref, each with the body built from the answers
  before it. A call is followed by the next only when it was answered with a 2xx response
  that its schema accepts: when the first three are, all four calls are made and the push
  returns what the update of the ref returns; when the k-th call is refused or its
  response is rejected, the k calls made so far are all the calls, and the push fails
  with the failure of that call. In every case the calls made are an initial part of the
  four, a refused call is the last call made, and the server has received the earlier
  requests followed by these calls and nothing else, so no request that would undo an
  earlier call is ever sent.
\<close>

theorem pushFiles_calls:
  "(\<forall>e. step pf log (ref_request t owner repo branch) (reference_sha pf) = Inl e \<longrightarrow>
       pushFiles pf t owner repo branch files message log
         = (Inl e, log @ [ref_request t owner repo branch]))
   \<and> (\<forall>commitSha e.
         step pf log (ref_request t owner repo branch) (reference_sha pf) = Inr commitSha
         \<and> step pf (log @ [ref_request t owner repo branch])
              (tree_request t owner repo files commitSha) (sha_of (GitHubTreeSchema pf)) = Inl e \<longrightarrow>
       pushFiles pf t owner repo branch files message log
         = (Inl e, log @ [ref_request t owner repo branch, tree_request t owner repo files commitSha]))
   \<and> (\<forall>commitSha tree_sha e.
         step pf log (ref_request t owner repo branch) (reference_sha pf) = Inr commitSha
         \<and> step pf (log @ [ref_request t owner repo branch])
              (tree_request t owner repo files commitSha) (sha_of (GitHubTreeSchema pf)) = Inr tree_sha
         \<and> step pf (log @ [ref_request t owner repo branch, tree_request t owner repo files commitSha])
              (commit_request t owner repo message tree_sha commitSha) (sha_of (GitHubCommitSchema pf)) = Inl e \<longrightarrow>
       pushFiles pf t owner repo branch files message log
         = (Inl e, log @ [ref_request t owner repo branch, tree_request t owner repo files commitSha,
                          commit_request t owner repo message tree_sha commitSha]))
   \<and> (\<forall>commitSha tree_sha commit_sha.
         step pf log (ref_request t owner repo branch) (reference_sha pf) = Inr commitSha
         \<and> step pf (log @ [ref_request t owner repo branch])
              (tree_request t owner repo files commitSha) (sha_of (GitHubTreeSchema pf)) = Inr tree_sha
         \<and> step pf (log @ [ref_request t owner repo branch, tree_request t owner repo files commitSha])
              (commit_request t owner repo message tree_sha commitSha) (sha_of (GitHubCommitSchema pf))
             = Inr commit_sha \<longrightarrow>
       pushFiles pf t owner repo branch files message log
         = (step pf (log @ [ref_request t owner repo branch, tree_request t owner repo files commitSha,
                            commit_request t owner repo message tree_sha commitSha])
              (update_request t owner repo branch commit_sha) (parse (GitHubReferenceSchema pf)),
            log @ [ref_request t owner repo branch, tree_request t owner repo files commitSha,
                   commit_request t owner repo message tree_sha commitSha,
                   update_request t owner repo branch commit_sha]))
   \<and> (\<forall>r log'. pushFiles pf t owner repo branch files message log = (r, log') \<longrightarrow>
        (\<exists>cs. log' = log @ cs \<and> cs \<noteq> []
           \<and> map meth_url cs = take (length cs) (pushFiles_plan owner repo branch)
           \<and> ((\<exists>v. r = Inr v) \<longrightarrow> length cs = 4)
           \<and> (\<forall>i < length cs. \<not> ok (serve pf (log @ take i cs) (cs ! i)) \<longrightarrow>
                 Suc i = length cs \<and> r = Inl (classified pf (serve pf (log @ take i cs) (cs ! i))))))"
proof (intro conjI allI impI)
  fix r log'
  assume "pushFiles pf t owner repo branch files message log = (r, log')"
  then show "\<exists>cs. log' = log @ cs \<and> cs \<noteq> []
     \<and> map meth_url cs = take (length cs) (pushFiles_plan owner repo branch)
     \<and> ((\<exists>v. r = Inr v) \<longrightarrow> length cs = 4)
     \<and> (\<forall>i < length cs. \<not> ok (serve pf (log @ take i cs) (cs ! i)) \<longrightarrow>
           Suc i = length cs \<and> r = Inl (classified pf (serve pf (log @ take i cs) (cs ! i))))"
    unfolding pushFiles_def createTree_def createCommit_def updateReference_def bind_assoc
    apply (elim bind_request_cases bind_lift_cases lift_elim)
    apply (simp_all add: pushFiles_plan_def All_less_Suc meth_url_mk_request)
    done
qed (simp_all add: pushFiles_four_calls four_calls_def)

text \<open>
  A push of three files that succeeds with four calls, and a push to a repository that
  fails to create commits, which ends with the third call and its error.
\<close>

theorem pushFiles_calls_witness:
  "pushFiles (example_platform working) ''tok'' ''o'' ''r'' ''main'' three_files ''msg'' []
     = (Inr a_reference,
        [ref_request ''tok'' ''o'' ''r'' ''main'',
         tree_request ''tok'' ''o'' ''r'' three_files (Some (JStr ''c0'')),
         commit_request ''tok'' ''o'' ''r'' ''msg'' (Some (JStr ''t1'')) (Some (JStr ''c0'')),
         update_request ''tok'' ''o'' ''r'' ''main'' (Some (JStr ''c1''))])
   \<and> pushFiles (example_platform broken_commits) ''tok'' ''o'' ''r'' ''main'' three_files ''msg'' []
     = (Inl (GitHubFailure (GitHubError ''GitHub API error'' 500 None)),
        [ref_request ''tok'' ''o'' ''r'' ''main'',
         tree_request ''tok'' ''o'' ''r'' three_files (Some (JStr ''c0'')),
         commit_request ''tok'' ''o'' ''r'' ''msg'' (Some (JStr ''t1'')) (Some (JStr ''c0''))])
   \<and> \<not> ok (serve (example_platform broken_commits)
              [ref_request ''tok'' ''o'' ''r'' ''main'',
               tree_request ''tok'' ''o'' ''r'' three_files (Some (JStr ''c0''))]
              (commit_request ''tok'' ''o'' ''r'' ''msg'' (Some (JStr ''t1'')) (Some (JStr ''c0''))))"
  using pushFiles_calls [where pf = "example_platform working" and t = "''tok''"
      and owner = "''o''" and repo = "''r''" and branch = "''main''" and files = three_files
      and message = "''msg''" and log = "[]"]
    pushFiles_calls [where pf = "example_platform broken_commits" and t = "''tok''"
      and owner = "''o''" and repo = "''r''" and branch = "''main''" and files = three_files
      and message = "''msg''" and log = "[]"]
  by (simp add: pushFiles_four_calls four_calls_def step_def sha_of_def reference_sha_def payload_def
      classified_def ref_request_def tree_request_def commit_request_def update_request_def
      working_def broken_commits_def a_reference_def run_simps)

text \<open>
  C2, as stated, fails when a response is not what the schema expects: the first call is
  answered with status 200 and a list of refs, no call is refused, and the push ends
  after this one call.
\<close>

theorem pushFiles_unexpected_response:
  "pushFiles (example_platform (serving (JArr [a_reference]))) ''tok'' ''o'' ''r'' ''main'' three_files ''msg'' []
     = (Inl (ZodError [ZIssue [] ''invalid_type'']), [ref_request ''tok'' ''o'' ''r'' ''main''])
   \<and> ok (serve (example_platform (serving (JArr [a_reference]))) [] (ref_request ''tok'' ''o'' ''r'' ''main''))"
  by (simp add: pushFiles_four_calls four_calls_def step_def sha_of_def reference_sha_def payload_def
      ref_request_def serving_def a_reference_def run_simps)

subsection \<open>Creating or updating a file\<close>

text \<open>
  C5. When no \<^verbatim>\<open>sha\<close> is given (it is absent or the empty string) and the probe for
  the existing file fails, with whatever failure, the failure is dropped: the operation
  goes on to the \<^verbatim>\<open>PUT\<close> request, whose body has no \<^verbatim>\<open>sha\<close>, and its outcome is
  the outcome of that request.
\<close>

theorem createOrUpdateFile_probe_failure:
  assumes "sha = None \<or> sha = Some []"
    and "getFileContents pf t owner repo path None (Some branch) log = (Inl e, log1)"
  shows "createOrUpdateFile pf t owner repo path content message branch sha log =
     (if ok (serve pf log1 (create_request pf t owner repo path content message branch))
      then parse (GitHubCreateUpdateFileResponseSchema pf)
             (payload (serve pf log1 (create_request pf t owner repo path content message branch)))
      else Inl (classified pf (serve pf log1 (create_request pf t owner repo path content message branch))),
      log1 @ [create_request pf t owner repo path content message branch])
    \<and> map_option (\<lambda>b. get_prop b ''sha'') (body (create_request pf t owner repo path content message branch))
        = Some None"
proof -
  have falsy: "\<not> truthy (map_option JStr sha)"
    using assms(1) by auto
  have "probe_sha pf t owner repo path branch (map_option JStr sha) log = (Inr (map_option JStr sha), log1)"
    using assms(2) by (simp add: probe_sha_def try_catch_def bind_def ret_def)
  then show ?thesis
    using falsy
    by (simp add: createOrUpdateFile_def put_body_def bind_def githubRequest_apply lift_apply
        create_request_def mk_request_def)
qed

text \<open>
  A repository that answers every read with status 403: the probe fails with a permission
  error, and the file is created all the same.
\<close>

theorem createOrUpdateFile_probe_failure_witness:
  "getFileContents (example_platform unreadable) ''tok'' ''o'' ''r'' ''a.txt'' None (Some ''main'') []
     = (Inl (GitHubFailure (GitHubPermissionError ''GitHub API error'')),
        [contents_request ''tok'' ''o'' ''r'' ''a.txt'' (Some ''main'')])
   \<and> createOrUpdateFile (example_platform unreadable) ''tok'' ''o'' ''r'' ''a.txt'' ''hi'' ''msg'' ''main'' None []
     = (Inr a_commit,
        [contents_request ''tok'' ''o'' ''r'' ''a.txt'' (Some ''main''),
         create_request (example_platform unreadable) ''tok'' ''o'' ''r'' ''a.txt'' ''hi'' ''msg'' ''main''])"
proof -
  have probe: "getFileContents (example_platform unreadable) ''tok'' ''o'' ''r'' ''a.txt'' None (Some ''main'') []
     = (Inl (GitHubFailure (GitHubPermissionError ''GitHub API error'')),
        [contents_request ''tok'' ''o'' ''r'' ''a.txt'' (Some ''main'')])"
    by (simp add: getFileContents_def contents_request_def contents_url_def unreadable_def run_simps)
  show ?thesis
    using createOrUpdateFile_probe_failure [OF disjI1 [OF refl] probe, of "''hi''" "''msg''"]
    by (simp add: probe create_request_def contents_url_def unreadable_def a_commit_def
        GitHubCreateUpdateFileResponseSchema_def payload_def run_simps)
qed


subsection \<open>Uploading a release asset\<close>



subsection \<open>Creating a branch from the default branch\<close>

lemma try_catch_cases:
  assumes "try_catch m h log = (r, log')"
  obtains (caught) e log1 where "m log = (Inl e, log1)" "h e log1 = (r, log')"
  | (passed) x where "m log = (Inr x, log')" "r = Inr x"
  using assms by (auto simp: try_catch_def split: prod.splits sum.splits)

text \<open>The probe of \<^verbatim>\<open>main\<close> comes first, and at most the probe of \<^verbatim>\<open>master\<close> follows.\<close>

lemma getDefaultBranchSHA_probes:
  assumes "getDefaultBranchSHA pf t owner repo log = (r, log')"
  shows "log' = log @ [main_probe t owner repo]
       \<or> log' = log @ [main_probe t owner repo, master_probe t owner repo]"
  using assms unfolding getDefaultBranchSHA_def main_probe_def master_probe_def
  apply (elim try_catch_cases bind_request_cases)
  apply (auto simp: throw_apply lift_apply split: if_splits)
  done

text \<open>The probe of \<^verbatim>\<open>master\<close> is made only when the probe of \<^verbatim>\<open>main\<close> has failed.\<close>

lemma getDefaultBranchSHA_fallback_only_on_failure:
  assumes "getDefaultBranchSHA pf t owner repo log = (r, log @ [main_probe t owner repo, master_probe t owner repo])"
  shows "\<not> ok (serve pf log (main_probe t owner repo))
       \<or> (\<exists>e. reference_sha pf (payload (serve pf log (main_probe t owner repo))) = Inl e)"
  using assms unfolding getDefaultBranchSHA_def main_probe_def master_probe_def
  apply (elim try_catch_cases bind_request_cases)
  apply (auto simp: throw_apply lift_apply split: if_splits)
  done

text \<open>When the server refuses both probes, the error of the second probe is the result.\<close>

lemma createBranchFromRef_both_probes_refused:
  assumes "fromBranch = None \<or> fromBranch = Some []"
    and "\<not> ok (serve pf log (main_probe t owner repo))"
    and "\<not> ok (serve pf (log @ [main_probe t owner repo]) (master_probe t owner repo))"
  shows "createBranchFromRef pf t owner repo newBranch fromBranch log =
     (Inl (classified pf (serve pf (log @ [main_probe t owner repo]) (master_probe t owner repo))),
      log @ [main_probe t owner repo, master_probe t owner repo])"
  using assms
  by (auto simp: createBranchFromRef_def getDefaultBranchSHA_def main_probe_def master_probe_def
      bind_def try_catch_def githubRequest_apply)

text \<open>
  C1. A branch is created without a source branch in a repository that refuses both probes
  with status 401: \<^verbatim>\<open>main\<close> is probed, then \<^verbatim>\<open>master\<close>, and the operation fails
  with the authentication error of the second probe, which is not a not-found error.
\<close>

theorem createBranchFromRef_unauthorized:
  "createBranchFromRef (example_platform (refusing 401)) ''tok'' ''o'' ''r'' ''feature'' None []
     = (Inl (GitHubFailure (GitHubAuthenticationError ''GitHub API error'')),
        [main_probe ''tok'' ''o'' ''r'', master_probe ''tok'' ''o'' ''r''])
   \<and> \<not> resource_not_found (GitHubFailure (GitHubAuthenticationError ''GitHub API error''))"
  by (simp add: createBranchFromRef_both_probes_refused classified_def resource_not_found_def
      refusing_def run_simps)

subsection \<open>Reading a file\<close>

lemma getFileContents_apply:
  "getFileContents pf t owner repo path encoded_opt branch log =
     (if ok (serve pf log (contents_request t owner repo path branch))
      then (case parse (GitHubContentSchema pf) (payload (serve pf log (contents_request t owner repo path branch))) of
              Inl e \<Rightarrow> Inl e
            | Inr data \<Rightarrow> decode_content pf (case encoded_opt of None \<Rightarrow> False | Some e \<Rightarrow> e) data)
      else Inl (classified pf (serve pf log (contents_request t owner repo path branch))),
      log @ [contents_request t owner repo path branch])"
  by (cases branch)
     (auto simp: getFileContents_def contents_request_def Let_def bind_def lift_def githubRequest_apply
       split: sum.splits)

text \<open>
  C10, as amended. When \<^verbatim>\<open>encoded\<close> is omitted the operation behaves as with
  \<^verbatim>\<open>encoded\<close> false. For a single file whose content is a string that is not empty,
  the content of the returned record is the text decoded from base64 and its encoding is
  \<^verbatim>\<open>utf8\<close>, the other properties being those of the parsed response. A file whose
  content is empty or absent is returned as parsed, with the encoding received. When
  \<^verbatim>\<open>encoded\<close> is true the record is returned as parsed.
\<close>

theorem getFileContents_decoding:
  assumes "ok (serve pf log (contents_request t owner repo path branch))"
    and "parse (GitHubContentSchema pf) (payload (serve pf log (contents_request t owner repo path branch)))
           = Inr (JObj kvs)"
  shows "getFileContents pf t owner repo path None branch log
           = getFileContents pf t owner repo path (Some False) branch log
     \<and> (\<forall>s. map_of kvs ''content'' = Some (JStr s) \<and> s \<noteq> [] \<longrightarrow>
           (\<exists>kvs'. getFileContents pf t owner repo path None branch log
                      = (Inr (JObj kvs'), log @ [contents_request t owner repo path branch])
                  \<and> map_of kvs' = (map_of kvs)(''content'' \<mapsto> JStr (base64_to_utf8 pf s),
                                                 ''encoding'' \<mapsto> JStr ''utf8'')))
     \<and> (\<not> truthy (map_of kvs ''content'') \<longrightarrow>
           getFileContents pf t owner repo path None branch log
             = (Inr (JObj kvs), log @ [contents_request t owner repo path branch]))
     \<and> getFileContents pf t owner repo path (Some True) branch log
           = (Inr (JObj kvs), log @ [contents_request t owner repo path branch])"
  using assms
  by (auto simp: getFileContents_apply decode_content_def member_def update_conv' split: option.splits json.splits)

text \<open>A file with the content \<^verbatim>\<open>aGk=\<close>, read without and with \<^verbatim>\<open>encoded\<close>.\<close>

theorem getFileContents_decoding_witness:
  "getFileContents (example_platform (serving (a_file ''aGk=''))) ''tok'' ''o'' ''r'' ''a.txt'' None None []
     = (Inr (JObj [(''name'', JStr ''a.txt''), (''path'', JStr ''a.txt''), (''sha'', JStr ''f0''),
                   (''content'', JStr ''hi''), (''encoding'', JStr ''utf8'')]),
        [contents_request ''tok'' ''o'' ''r'' ''a.txt'' None])
   \<and> getFileContents (example_platform (serving (a_file ''aGk=''))) ''tok'' ''o'' ''r'' ''a.txt'' (Some True) None []
     = (Inr (a_file ''aGk=''), [contents_request ''tok'' ''o'' ''r'' ''a.txt'' None])"
proof -
  have 1: "ok (serve (example_platform (serving (a_file ''aGk=''))) [] (contents_request ''tok'' ''o'' ''r'' ''a.txt'' None))"
    by (simp add: serving_def run_simps)
  have 2: "parse (GitHubContentSchema (example_platform (serving (a_file ''aGk=''))))
             (payload (serve (example_platform (serving (a_file ''aGk=''))) [] (contents_request ''tok'' ''o'' ''r'' ''a.txt'' None)))
           = Inr (JObj [(''name'', JStr ''a.txt''), (''path'', JStr ''a.txt''), (''sha'', JStr ''f0''),
                    (''content'', JStr ''aGk=''), (''encoding'', JStr ''base64'')])"
    by (simp add: serving_def payload_def a_file_def run_simps)
  show ?thesis
    using getFileContents_decoding [OF 1 2]
    by (simp add: getFileContents_def contents_request_def contents_url_def decode_content_def
        serving_def a_file_def run_simps)
qed

text \<open>
  C10, as stated, fails for an empty file: with \<^verbatim>\<open>encoded\<close> omitted, the record of a
  file whose content is the empty string is returned with the encoding \<^verbatim>\<open>base64\<close>
  that was received, not \<^verbatim>\<open>utf8\<close>.
\<close>

theorem getFileContents_empty_file:
  "getFileContents (example_platform (serving (a_file []))) ''tok'' ''o'' ''r'' ''a.txt'' None None []
     = (Inr (a_file []), [contents_request ''tok'' ''o'' ''r'' ''a.txt'' None])
   \<and> get_prop (a_file []) ''content'' = Some (JStr [])
   \<and> get_prop (a_file []) ''encoding'' = Some (JStr ''base64'')"
  by (simp add: getFileContents_def contents_request_def contents_url_def decode_content_def serving_def
      a_file_def run_simps)

subsection \<open>Classifying a refused request\<close>

text \<open>
  C6. The classifier is a function of the status, the headers and the body, defined for
  every status. It maps 401 to an authentication error, 403 to a permission error unless
  the \<^verbatim>\<open>rate-limit-remaining\<close> header is 0, 404 to a not-found error, 409 to a conflict,
  422 to a validation error that carries the body unchanged, 429 and a 403 whose
  \<^verbatim>\<open>rate-limit-remaining\<close> header is 0 to a rate-limit error with the computed reset
  time, and every other status to the generic error with the status and the body.
\<close>

theorem createGitHubError_table:
  "(st = 401 \<longrightarrow> createGitHubError pf st hs b = GitHubAuthenticationError (error_message pf st b))
   \<and> (st = 403 \<and> map_of hs ''rate-limit-remaining'' \<noteq> Some ''0'' \<longrightarrow>
        createGitHubError pf st hs b = GitHubPermissionError (error_message pf st b))
   \<and> (st = 404 \<longrightarrow> createGitHubError pf st hs b = GitHubResourceNotFoundError (error_message pf st b))
   \<and> (st = 409 \<longrightarrow> createGitHubError pf st hs b = GitHubConflictError (error_message pf st b))
   \<and> (st = 422 \<longrightarrow> createGitHubError pf st hs b = GitHubValidationError (error_message pf st b) st b)
   \<and> (st = 429 \<or> (st = 403 \<and> map_of hs ''rate-limit-remaining'' = Some ''0'') \<longrightarrow>
        createGitHubError pf st hs b = GitHubRateLimitError (error_message pf st b) (reset_timestamp pf hs b))
   \<and> (st \<notin> {401, 403, 404, 409, 422, 429} \<longrightarrow>
        createGitHubError pf st hs b = GitHubError (error_message pf st b) st b)"
  by (simp add: createGitHubError_def)

text \<open>One response for each line of the table.\<close>

theorem createGitHubError_table_witness:
  "createGitHubError (example_platform (refusing 401)) 401 [] None = GitHubAuthenticationError ''GitHub API error''
   \<and> createGitHubError (example_platform (refusing 403)) 403 [] None = GitHubPermissionError ''GitHub API error''
   \<and> createGitHubError (example_platform (refusing 404)) 404 [] None = GitHubResourceNotFoundError ''GitHub API error''
   \<and> createGitHubError (example_platform (refusing 409)) 409 [] None = GitHubConflictError ''GitHub API error''
   \<and> createGitHubError (example_platform (refusing 422)) 422 [] None = GitHubValidationError ''GitHub API error'' 422 None
   \<and> createGitHubError (example_platform (refusing 403)) 403 [(''rate-limit-remaining'', ''0'')] None
        = GitHubRateLimitError ''GitHub API error'' 1700000000
   \<and> createGitHubError (example_platform (refusing 429)) 429 [] None
        = GitHubRateLimitError ''GitHub API error'' 1700000000
   \<and> createGitHubError (example_platform (refusing 500)) 500 [] None = GitHubError ''GitHub API error'' 500 None"
  using createGitHubError_table [of 401 "example_platform (refusing 401)" "[]" None]
    createGitHubError_table [of 403 "example_platform (refusing 403)" "[]" None]
    createGitHubError_table [of 404 "example_platform (refusing 404)" "[]" None]
    createGitHubError_table [of 409 "example_platform (refusing 409)" "[]" None]
    createGitHubError_table [of 422 "example_platform (refusing 422)" "[]" None]
    createGitHubError_table [of 403 "example_platform (refusing 403)" "[(''rate-limit-remaining'', ''0'')]" None]
    createGitHubError_table [of 429 "example_platform (refusing 429)" "[]" None]
    createGitHubError_table [of 500 "example_platform (refusing 500)" "[]" None]
  by (simp add: example_platform_sel)

subsection \<open>Resolving the credential\<close>

lemma handle_no_credential:
  assumes "resolve_credential env a = Inl e"
  shows "e = Error ''GitHub PAT is required''"
    and "callTool pf tools env name (Some a) log = (Inl ''GitHub PAT is required'', log)"
  using assms
  by (auto simp: resolve_credential_def callTool_def handle_def bind_def lift_def surface_def
      split: if_splits option.splits)

text \<open>
  C4, as amended. When an argument record is given, the credential is the
  \<^verbatim>\<open>github_pat\<close> of the record if that is truthy (present and not an empty string);
  otherwise the value of \<^verbatim>\<open>GITHUB_PAT\<close> if it is set and not blank (not empty after
  trimming the white space and line terminators of Unicode); otherwise the value of
  \<^verbatim>\<open>GITHUB_PERSONAL_ACCESS_TOKEN\<close> if it is set and not blank; otherwise the
  invocation fails with the message \<^verbatim>\<open>GitHub PAT is required\<close>, whatever the tool,
  and no call is made. Without an argument record the invocation fails before the
  credential is looked at.
\<close>

theorem resolve_credential_order:
  "(truthy (map_of a ''github_pat'') \<longrightarrow> resolve_credential env a = Inr a)
   \<and> (\<forall>v. \<not> truthy (map_of a ''github_pat'') \<and> env ''GITHUB_PAT'' = Some v \<and> trim v \<noteq> [] \<longrightarrow>
          resolve_credential env a = Inr (AList.update ''github_pat'' (JStr v) a))
   \<and> (\<forall>v. \<not> truthy (map_of a ''github_pat'') \<and> \<not> usable (env ''GITHUB_PAT'')
          \<and> env ''GITHUB_PERSONAL_ACCESS_TOKEN'' = Some v \<and> trim v \<noteq> [] \<longrightarrow>
          resolve_credential env a = Inr (AList.update ''github_pat'' (JStr v) a))
   \<and> (\<not> truthy (map_of a ''github_pat'') \<and> \<not> usable (env ''GITHUB_PAT'')
          \<and> \<not> usable (env ''GITHUB_PERSONAL_ACCESS_TOKEN'') \<longrightarrow>
          callTool pf tools env name (Some a) log = (Inl ''GitHub PAT is required'', log))
   \<and> callTool pf tools env name None log = (Inl ''Arguments are required'', log)"
  by (auto simp: resolve_credential_def usable_def callTool_def handle_def bind_def lift_def surface_def
      throw_def split: option.splits)

text \<open>Trimming removes white space of one and of several bytes at both ends, and none inside.\<close>

lemma trim_examples:
  "trim ([CHR 0xE2, CHR 0x80, CHR 0xA8] @ ''tok'' @ [CHR 0xEF, CHR 0xBB, CHR 0xBF]) = ''tok''"
  "trim ([CHR 0x09, CHR 0xC2, CHR 0xA0] @ ''a b'' @ [CHR 0xE3, CHR 0x80, CHR 0x80, CHR 0x0A]) = ''a b''"
  "trim [CHR 0xC3, CHR 0xA0] = [CHR 0xC3, CHR 0xA0]"
  by (simp_all add: trim_def white_space_def)

lemma trim_simps:
  "trim '' '' = []" "trim [CHR 0xC2, CHR 0xA0] = []"
  "trim ''tok'' = ''tok''" "trim ''tok1'' = ''tok1''" "trim ''tok2'' = ''tok2''"
  by (simp_all add: trim_def white_space_def)

text \<open>
  An explicit credential with both variables set, no explicit credential with both set,
  with only the second set, with the first set to a no-break space, and with none.
\<close>

theorem resolve_credential_order_witness:
  "resolve_credential both_set [(''github_pat'', JStr ''mine'')] = Inr [(''github_pat'', JStr ''mine'')]
   \<and> resolve_credential both_set [(''owner'', JStr ''o'')]
        = Inr [(''owner'', JStr ''o''), (''github_pat'', JStr ''tok1'')]
   \<and> resolve_credential only_second [(''owner'', JStr ''o'')]
        = Inr [(''owner'', JStr ''o''), (''github_pat'', JStr ''tok2'')]
   \<and> resolve_credential nbsp_first [(''owner'', JStr ''o'')]
        = Inr [(''owner'', JStr ''o''), (''github_pat'', JStr ''tok2'')]
   \<and> callTool (example_platform (refusing 500)) (registry (example_platform (refusing 500)) (\<lambda>n. None))
        (\<lambda>n. None) ''push_files'' (Some [(''owner'', JStr ''o'')]) []
        = (Inl ''GitHub PAT is required'', [])"
  using resolve_credential_order [of "[(''github_pat'', JStr ''mine'')]" both_set]
    resolve_credential_order [of "[(''owner'', JStr ''o'')]" both_set]
    resolve_credential_order [of "[(''owner'', JStr ''o'')]" only_second]
    resolve_credential_order [of "[(''owner'', JStr ''o'')]" nbsp_first]
    resolve_credential_order [of "[(''owner'', JStr ''o'')]" "\<lambda>n. None" "example_platform (refusing 500)"
      "registry (example_platform (refusing 500)) (\<lambda>n. None)" "''push_files''" "[]"]
  by (simp add: both_set_def only_second_def nbsp_first_def usable_def trim_simps)

text \<open>
  C4, as stated, fails when \<^verbatim>\<open>GITHUB_PAT\<close> is set to a blank string: it is set and not
  empty, so the specification takes it, while the source skips it and takes
  \<^verbatim>\<open>GITHUB_PERSONAL_ACCESS_TOKEN\<close>.
\<close>

theorem resolve_credential_blank_variable:
  "blank_first ''GITHUB_PAT'' = Some '' ''
   \<and> resolve_credential blank_first [] = Inr [(''github_pat'', JStr ''tok'')]
   \<and> specified_credential blank_first [] = Some (JStr '' '')"
  by (simp add: blank_first_def resolve_credential_def specified_credential_def usable_def trim_simps)

subsection \<open>Surfacing a failure\<close>



lemmas dispatch_simps = callTool_def handle_def surface_def registry_def as_text_def
  resolve_credential_def usable_def no_environment_def no_other_tools_def
  CreateCommitStatusSchema'_def CreateCommitStatusSchema_def CommitStatusSchema_def
  ListIssuesOptionsSchema'_def ListIssuesOptionsSchema_def
  createCommitStatus_def listIssues_def spread_def without_def str_field_def opt_str_field_def
  opt_num_field_def opt_strs_field_def formatGitHubError_def invalid_argument_def


subsection \<open>Validating the argument record\<close>

lemma resolve_credential_keeps:
  assumes "resolve_credential env a = Inr a'" and "k \<noteq> ''github_pat''"
  shows "map_of a' k = map_of a k"
  using assms
  by (auto simp: resolve_credential_def update_conv' split: if_splits option.splits)

lemma resolve_credential_Inl:
  "resolve_credential env a = Inl e \<Longrightarrow> e = Error ''GitHub PAT is required''"
  by (auto simp: resolve_credential_def split: if_splits option.splits)

lemma callTool_rejected_field:
  assumes "tools name = Some (ZObject shape, run)"
    and "(k, s) \<in> set shape" and "k \<noteq> ''github_pat''"
    and "\<And>a'. map_of a' k = map_of a k \<Longrightarrow> \<exists>is. zparse s [JStr k] (map_of a' k) = Inl is"
  shows "snd (callTool pf tools env name (Some a) log) = log
     \<and> (\<forall>a'. resolve_credential env a = Inr a' \<longrightarrow>
           (\<exists>is. is \<noteq> [] \<and> callTool pf tools env name (Some a) log
                    = (Inl (''Invalid input: '' @ JSON_stringify pf (issues_json pf is)), log)))
     \<and> (\<forall>e. resolve_credential env a = Inl e \<longrightarrow>
           callTool pf tools env name (Some a) log = (Inl ''GitHub PAT is required'', log))"
proof (cases "resolve_credential env a")
  case (Inl e)
  then have "callTool pf tools env name (Some a) log = (Inl ''GitHub PAT is required'', log)"
    using resolve_credential_Inl [OF Inl]
    by (simp add: callTool_def handle_def bind_def lift_def surface_def)
  with Inl show ?thesis by simp
next
  case (Inr a')
  have "map_of a' k = map_of a k"
    using Inr assms(3) by (rule resolve_credential_keeps)
  then obtain "is" where "zparse s ([] @ [JStr k]) (map_of a' k) = Inl is"
    using assms(4) by fastforce
  with assms(2) obtain js where js: "zparse (ZObject shape) [] (Some (JObj a')) = Inl js" "js \<noteq> []"
    using zparse_object_field_fails by blast
  then have "callTool pf tools env name (Some a) log
               = (Inl (''Invalid input: '' @ JSON_stringify pf (issues_json pf js)), log)"
    using Inr assms(1)
    by (simp add: callTool_def handle_def bind_def lift_def surface_def parse_def)
  with Inr js(2) show ?thesis by auto
qed

text \<open>
  C3, as amended. For every tool of the table whose input contract is an object schema,
  and every argument record that lacks a required field other than \<^verbatim>\<open>github_pat\<close>
  (which the handler fills in from the environment): when the credential resolves, the
  invocation fails with the message \<^verbatim>\<open>Invalid input:\<close> followed by the issues, which
  are not empty; when it does not, the invocation fails with \<^verbatim>\<open>GitHub PAT is
  required\<close>. In both cases no call is made.
\<close>

theorem missing_required_field:
  assumes "tools name = Some (ZObject shape, run)"
    and "(k, s) \<in> set shape" and "required s" and "k \<noteq> ''github_pat''" and "map_of a k = None"
  shows "snd (callTool pf tools env name (Some a) log) = log
     \<and> (\<forall>a'. resolve_credential env a = Inr a' \<longrightarrow>
           (\<exists>is. is \<noteq> [] \<and> callTool pf tools env name (Some a) log
                    = (Inl (''Invalid input: '' @ JSON_stringify pf (issues_json pf is)), log)))
     \<and> (\<forall>e. resolve_credential env a = Inl e \<longrightarrow>
           callTool pf tools env name (Some a) log = (Inl ''GitHub PAT is required'', log))"
proof (rule callTool_rejected_field [where tools = tools and name = name, OF assms(1,2,4)])
  fix a' assume "map_of a' k = map_of a k"
  then show "\<exists>is. zparse s [JStr k] (map_of a' k) = Inl is"
    using assms(3,5) zparse_required_iff by simp
qed

text \<open>
  C8, as amended. For every tool of the table whose input contract is an object schema
  with an enumerated field, required or optional, and every argument record that gives
  the field a value outside the enumeration: when the credential resolves, the invocation
  fails with the message \<^verbatim>\<open>Invalid input:\<close> followed by the issues, which are not
  empty; when it does not, the invocation fails with \<^verbatim>\<open>GitHub PAT is required\<close>. In
  both cases the operation is not run and no call is made.
\<close>

theorem enumerated_field_outside:
  assumes "tools name = Some (ZObject shape, run)"
    and "(k, s) \<in> set shape" and "s = ZEnum lits \<or> s = ZOptional (ZEnum lits)"
    and "k \<noteq> ''github_pat''" and "map_of a k = Some v" and "v \<notin> JStr ` set lits"
  shows "snd (callTool pf tools env name (Some a) log) = log
     \<and> (\<forall>a'. resolve_credential env a = Inr a' \<longrightarrow>
           (\<exists>is. is \<noteq> [] \<and> callTool pf tools env name (Some a) log
                    = (Inl (''Invalid input: '' @ JSON_stringify pf (issues_json pf is)), log)))
     \<and> (\<forall>e. resolve_credential env a = Inl e \<longrightarrow>
           callTool pf tools env name (Some a) log = (Inl ''GitHub PAT is required'', log))"
proof (rule callTool_rejected_field [where tools = tools and name = name, OF assms(1,2,4)])
  fix a' assume "map_of a' k = map_of a k"
  then show "\<exists>is. zparse s [JStr k] (map_of a' k) = Inl is"
    using assms(3,5) zparse_enum_rejects [OF assms(6)] by auto
qed


text \<open>A commit status without the \<^verbatim>\<open>sha\<close>.\<close>

theorem missing_required_field_witness:
  "callTool (example_platform (refusing 500)) (registry (example_platform (refusing 500)) no_other_tools)
     no_environment ''create_commit_status''
     (Some [(''github_pat'', JStr ''tok''), (''owner'', JStr ''o''), (''repo'', JStr ''r''),
            (''state'', JStr ''success'')]) []
   = (Inl (''Invalid input: ''
           @ show_json (JArr [JObj [(''code'', JStr ''invalid_type''), (''path'', JArr [JStr ''sha''])]])), [])"
proof -
  have "\<exists>run. registry (example_platform (refusing 500)) no_other_tools ''create_commit_status''
          = Some (ZObject [(''owner'', ZString), (''repo'', ZString), (''sha'', ZString),
                (''state'', ZEnum [''error'', ''failure'', ''pending'', ''success'']),
                (''target_url'', ZOptional ZString), (''description'', ZOptional ZString),
                (''context'', ZOptional ZString), (''github_pat'', ZString)], run)"
    by (simp add: dispatch_simps)
  then obtain run where
    "registry (example_platform (refusing 500)) no_other_tools ''create_commit_status''
          = Some (ZObject [(''owner'', ZString), (''repo'', ZString), (''sha'', ZString),
                (''state'', ZEnum [''error'', ''failure'', ''pending'', ''success'']),
                (''target_url'', ZOptional ZString), (''description'', ZOptional ZString),
                (''context'', ZOptional ZString), (''github_pat'', ZString)], run)"
    by blast
  from missing_required_field [where tools = "registry (example_platform (refusing 500)) no_other_tools"
      and name = "''create_commit_status''" and k = "''sha''" and s = ZString
      and a = "[(''github_pat'', JStr ''tok''), (''owner'', JStr ''o''), (''repo'', JStr ''r''),
            (''state'', JStr ''success'')]"
      and pf = "example_platform (refusing 500)" and env = no_environment and log = "[]", OF this]
  show ?thesis
    by (simp add: dispatch_simps run_simps)
qed

text \<open>
  C3, as stated, fails when no credential can be resolved: the record lacks the required
  \<^verbatim>\<open>sha\<close>, and the failure is the missing credential, not an invalid argument. It
  also fails for the field \<^verbatim>\<open>github_pat\<close>, which the schema of every tool requires:
  a record without it is completed from the environment, and the call is made.
\<close>

theorem missing_required_field_without_credential:
  "callTool (example_platform (refusing 500)) (registry (example_platform (refusing 500)) no_other_tools)
     no_environment ''create_commit_status''
     (Some [(''owner'', JStr ''o''), (''repo'', JStr ''r''), (''state'', JStr ''success'')]) []
   = (Inl ''GitHub PAT is required'', [])
   \<and> \<not> invalid_argument ''GitHub PAT is required''
   \<and> map_of [(''owner'', JStr ''o''), (''repo'', JStr ''r''), (''state'', JStr ''success'')] ''sha'' = None
   \<and> CreateCommitStatusSchema' =
        ZObject [(''owner'', ZString), (''repo'', ZString), (''sha'', ZString),
                (''state'', ZEnum [''error'', ''failure'', ''pending'', ''success'']),
                (''target_url'', ZOptional ZString), (''description'', ZOptional ZString),
                (''context'', ZOptional ZString), (''github_pat'', ZString)]
   \<and> required ZString
   \<and> callTool (example_platform (serving (JArr []))) (registry (example_platform (serving (JArr []))) no_other_tools)
       both_set ''list_issues'' (Some [(''owner'', JStr ''o''), (''repo'', JStr ''r'')]) []
     = (Inr ''[]'', [mk_request ''tok1'' (repos_url ''o'' ''r'' ''/issues'') GET None []])
   \<and> map_of [(''owner'', JStr ''o''), (''repo'', JStr ''r'')] ''github_pat'' = None"
  by (simp add: dispatch_simps run_simps both_set_def trim_simps serving_def)

text \<open>The state \<^verbatim>\<open>bogus\<close> for a commit status and for a list of issues.\<close>

theorem enumerated_field_outside_witness:
  "callTool (example_platform (refusing 500)) (registry (example_platform (refusing 500)) no_other_tools)
     no_environment ''create_commit_status'' (Some (status_arguments ''bogus'')) []
   = (Inl (''Invalid input: ''
           @ show_json (JArr [JObj [(''code'', JStr ''invalid_enum_value''), (''path'', JArr [JStr ''state''])]])), [])
   \<and> callTool (example_platform (refusing 500)) (registry (example_platform (refusing 500)) no_other_tools)
     no_environment ''list_issues'' (Some (issues_arguments ''bogus'')) []
   = (Inl (''Invalid input: ''
           @ show_json (JArr [JObj [(''code'', JStr ''invalid_enum_value''), (''path'', JArr [JStr ''state''])]])), [])"
proof -
  have "\<exists>run. registry (example_platform (refusing 500)) no_other_tools ''create_commit_status''
          = Some (ZObject [(''owner'', ZString), (''repo'', ZString), (''sha'', ZString),
                (''state'', ZEnum [''error'', ''failure'', ''pending'', ''success'']),
                (''target_url'', ZOptional ZString), (''description'', ZOptional ZString),
                (''context'', ZOptional ZString), (''github_pat'', ZString)], run)"
    by (simp add: dispatch_simps)
  then obtain run where 1:
    "registry (example_platform (refusing 500)) no_other_tools ''create_commit_status''
          = Some (ZObject [(''owner'', ZString), (''repo'', ZString), (''sha'', ZString),
                (''state'', ZEnum [''error'', ''failure'', ''pending'', ''success'']),
                (''target_url'', ZOptional ZString), (''description'', ZOptional ZString),
                (''context'', ZOptional ZString), (''github_pat'', ZString)], run)"
    by blast
  have "\<exists>run. registry (example_platform (refusing 500)) no_other_tools ''list_issues''
          = Some (ZObject [(''owner'', ZString), (''repo'', ZString),
                (''direction'', ZOptional (ZEnum [''asc'', ''desc''])),
                (''labels'', ZOptional (ZArray ZString)),
                (''page'', ZOptional (ZNumber None None)),
                (''per_page'', ZOptional (ZNumber None None)),
                (''since'', ZOptional ZString),
                (''sort'', ZOptional (ZEnum [''created'', ''updated'', ''comments''])),
                (''state'', ZOptional (ZEnum [''open'', ''closed'', ''all''])),
                (''github_pat'', ZString)], run)"
    by (simp add: dispatch_simps)
  then obtain run' where 2:
    "registry (example_platform (refusing 500)) no_other_tools ''list_issues''
          = Some (ZObject [(''owner'', ZString), (''repo'', ZString),
                (''direction'', ZOptional (ZEnum [''asc'', ''desc''])),
                (''labels'', ZOptional (ZArray ZString)),
                (''page'', ZOptional (ZNumber None None)),
                (''per_page'', ZOptional (ZNumber None None)),
                (''since'', ZOptional ZString),
                (''sort'', ZOptional (ZEnum [''created'', ''updated'', ''comments''])),
                (''state'', ZOptional (ZEnum [''open'', ''closed'', ''all''])),
                (''github_pat'', ZString)], run')"
    by blast
  from enumerated_field_outside [where tools = "registry (example_platform (refusing 500)) no_other_tools"
      and name = "''create_commit_status''" and k = "''state''"
      and s = "ZEnum [''error'', ''failure'', ''pending'', ''success'']"
      and lits = "[''error'', ''failure'', ''pending'', ''success'']"
      and a = "status_arguments ''bogus''" and v = "JStr ''bogus''"
      and pf = "example_platform (refusing 500)" and env = no_environment and log = "[]", OF 1]
    enumerated_field_outside [where tools = "registry (example_platform (refusing 500)) no_other_tools"
      and name = "''list_issues''" and k = "''state''"
      and s = "ZOptional (ZEnum [''open'', ''closed'', ''all''])"
      and lits = "[''open'', ''closed'', ''all'']"
      and a = "issues_arguments ''bogus''" and v = "JStr ''bogus''"
      and pf = "example_platform (refusing 500)" and env = no_environment and log = "[]", OF 2]
  show ?thesis
    by (simp add: dispatch_simps run_simps status_arguments_def issues_arguments_def)
qed

text \<open>
  C8, as stated, fails when no credential can be resolved: the state is outside the
  enumeration, and the failure is the missing credential, not an invalid argument.
\<close>

theorem enumerated_field_outside_without_credential:
  "callTool (example_platform (refusing 500)) (registry (example_platform (refusing 500)) no_other_tools)
     no_environment ''create_commit_status''
     (Some [(''owner'', JStr ''o''), (''repo'', JStr ''r''), (''sha'', JStr ''abc''), (''state'', JStr ''bogus'')]) []
   = (Inl ''GitHub PAT is required'', [])
   \<and> \<not> invalid_argument ''GitHub PAT is required''
   \<and> ''bogus'' \<notin> set [''error'', ''failure'', ''pending'', ''success'']"
  by (simp add: dispatch_simps run_simps)

end
